theory Spec2Isabelle
  imports Complex_Main
begin

section \<open>Common modelling layer\<close>

text \<open>
  The simulators are Python classes whose methods work on dictionaries of numbers and
  strings. Python floats are modelled as real numbers, Python integers as \<open>int\<close>,
  dictionaries with a fixed set of keys as records, lookup tables as association lists
  in the order of the dictionary literal, and every exception the modelled code can raise
  as a value of \<open>error\<close> on the left of a sum.
\<close>

datatype error =
  KeyError string | ZeroDivisionError | ValueError | IndexError | OverflowError

definition bind_err :: "error + 'a \<Rightarrow> ('a \<Rightarrow> error + 'b) \<Rightarrow> error + 'b" where
  "bind_err m f = (case m of Inl e \<Rightarrow> Inl e | Inr x \<Rightarrow> f x)"

text \<open>Python's \<open>a / b\<close> on numbers: raises \<open>ZeroDivisionError\<close> when \<open>b\<close> is zero.\<close>

definition truediv :: "real \<Rightarrow> real \<Rightarrow> error + real" where
  "truediv a b = (if b = 0 then Inl ZeroDivisionError else Inr (a / b))"

text \<open>\<open>d[key]\<close> raises \<open>KeyError\<close> on a missing key; \<open>d.get(key, default)\<close> does not.\<close>

definition subscript :: "(string \<times> 'v) list \<Rightarrow> string \<Rightarrow> error + 'v" where
  "subscript d k = (case map_of d k of None \<Rightarrow> Inl (KeyError k) | Some v \<Rightarrow> Inr v)"

definition get_default :: "(string \<times> 'v) list \<Rightarrow> string \<Rightarrow> 'v \<Rightarrow> 'v" where
  "get_default d k dflt = (case map_of d k of None \<Rightarrow> dflt | Some v \<Rightarrow> v)"

section \<open>CropGrowthSimulator (services/crop\_simulator.py)\<close>

subsection \<open>calculate\_growth\_rate\<close>

text \<open>
  A sensor reading, restricted to the five keys that \<open>calculate_growth_rate\<close> reads.
\<close>

record reading =
  r_temperature :: real
  r_humidity :: real
  r_soil_moisture :: real
  r_ph_level :: real
  r_rainfall :: real

text \<open>\<open>self.growth_factors\<close>: parameter, optimal band, weight, in dictionary order.\<close>

definition growth_factors :: "(string \<times> (real \<times> real) \<times> real) list" where
  "growth_factors =
     [(''temperature'', (26, 30), 0.25),
      (''humidity'', (70, 85), 0.15),
      (''soil_moisture'', (70, 90), 0.30),
      (''ph_level'', (6.0, 7.0), 0.15),
      (''rainfall'', (10, 30), 0.15)]"

definition crop_modifiers :: "(string \<times> real) list" where
  "crop_modifiers =
     [(''rice'', 1.0), (''palm_oil'', 0.8), (''rubber'', 0.6),
      (''durian'', 1.2), (''banana'', 1.1), (''coconut'', 0.7)]"

text \<open>\<open>sensor_data[-168:]\<close>: the last 168 entries, or all of a shorter list.\<close>

definition recent_data :: "reading list \<Rightarrow> reading list" where
  "recent_data sensor_data = drop (length sensor_data - 168) sensor_data"

definition avg_conditions :: "reading list \<Rightarrow> error + (string \<times> real) list" where
  "avg_conditions rd =
     bind_err (truediv (sum_list (map r_temperature rd)) (real (length rd))) (\<lambda>t.
     bind_err (truediv (sum_list (map r_humidity rd)) (real (length rd))) (\<lambda>h.
     bind_err (truediv (sum_list (map r_soil_moisture rd)) (real (length rd))) (\<lambda>m.
     bind_err (truediv (sum_list (map r_ph_level rd)) (real (length rd))) (\<lambda>p.
     Inr [(''temperature'', t), (''humidity'', h), (''soil_moisture'', m),
          (''ph_level'', p), (''rainfall'', sum_list (map r_rainfall rd))]))))"

text \<open>The body of the loop over the growth factors, for one parameter value.\<close>

definition param_factor :: "real \<Rightarrow> real \<times> real \<Rightarrow> error + real" where
  "param_factor v optimal =
     (case optimal of (optimal_min, optimal_max) \<Rightarrow>
        if optimal_min \<le> v \<and> v \<le> optimal_max then Inr 1
        else bind_err
               (if v < optimal_min then truediv (optimal_min - v) optimal_min
                else truediv (v - optimal_max) optimal_max)
               (\<lambda>deviation. Inr (max 0.1 (1 - deviation * 0.5))))"

fun factor_loop ::
  "(string \<times> real) list \<Rightarrow> (string \<times> (real \<times> real) \<times> real) list \<Rightarrow> real \<times> real
     \<Rightarrow> error + (real \<times> real)" where
  "factor_loop avg [] acc = Inr acc"
| "factor_loop avg ((param, optimal, weight) # rest) (total_factor, total_weight) =
     bind_err (subscript avg param) (\<lambda>v.
     bind_err (param_factor v optimal) (\<lambda>factor.
     factor_loop avg rest (total_factor + factor * weight, total_weight + weight)))"

definition calculate_growth_rate :: "reading list \<Rightarrow> string \<Rightarrow> error + real" where
  "calculate_growth_rate sensor_data crop_type =
     (if sensor_data = [] then Inr 1
      else if recent_data sensor_data = [] then Inr 1
      else
        bind_err (avg_conditions (recent_data sensor_data)) (\<lambda>avg.
        bind_err (factor_loop avg growth_factors (0, 0)) (\<lambda>(total_factor, total_weight).
        bind_err (if total_weight > 0 then truediv total_factor total_weight else Inr 1)
          (\<lambda>growth_rate.
        Inr (max 0.1 (min 2.0 (growth_rate * get_default crop_modifiers crop_type 1.0)))))))"


section \<open>The world outside the simulators\<close>

text \<open>
  The generators read the wall clock, the process-wide random source and the uuid
  generator. These are made explicit as one \<open>world\<close> value that every generator takes
  and returns: each field is the stream of results that the successive calls will give.
  A wall-clock reading is a naive \<open>datetime\<close>, represented by the number of microseconds
  since 0001-01-01T00:00:00 (an unbounded integer: the year-9999 ceiling of the library
  type is outside the model). \<open>randoms\<close> holds the results of \<open>random.random()\<close>,
  \<open>randbits\<close> the raw material of the integer draws (\<open>randint\<close>, \<open>choice\<close>).
\<close>

record world =
  clock :: "nat \<Rightarrow> int"
  randoms :: "nat \<Rightarrow> real"
  randbits :: "nat \<Rightarrow> nat"
  uuids :: "nat \<Rightarrow> string"

type_synonym 'a sim = "world \<Rightarrow> error + ('a \<times> world)"

definition returns :: "'a \<Rightarrow> 'a sim" where
  "returns x w = Inr (x, w)"

definition raises :: "error \<Rightarrow> 'a sim" where
  "raises e w = Inl e"

definition bind_sim :: "'a sim \<Rightarrow> ('a \<Rightarrow> 'b sim) \<Rightarrow> 'b sim" where
  "bind_sim m f w = (case m w of Inl e \<Rightarrow> Inl e | Inr (x, w') \<Rightarrow> f x w')"

definition lift_err :: "error + 'a \<Rightarrow> 'a sim" where
  "lift_err m w = (case m of Inl e \<Rightarrow> Inl e | Inr x \<Rightarrow> Inr (x, w))"

definition value_of :: "error + ('a \<times> world) \<Rightarrow> 'a option" where
  "value_of m = (case m of Inl e \<Rightarrow> None | Inr (x, w) \<Rightarrow> Some x)"

definition tail_of :: "(nat \<Rightarrow> 'a) \<Rightarrow> nat \<Rightarrow> 'a" where
  "tail_of f n = f (Suc n)"

definition datetime_now :: "int sim" where
  "datetime_now w = Inr (clock w 0, w\<lparr>clock := tail_of (clock w)\<rparr>)"

definition uuid4 :: "string sim" where
  "uuid4 w = Inr (uuids w 0, w\<lparr>uuids := tail_of (uuids w)\<rparr>)"

definition random_random :: "real sim" where
  "random_random w = Inr (randoms w 0, w\<lparr>randoms := tail_of (randoms w)\<rparr>)"

text \<open>\<open>random.uniform(a, b)\<close> is \<open>a + (b - a) * random()\<close>.\<close>

definition random_uniform :: "real \<times> real \<Rightarrow> real sim" where
  "random_uniform bounds =
     (case bounds of (a, b) \<Rightarrow> bind_sim random_random (\<lambda>r. returns (a + (b - a) * r)))"

text \<open>
  \<open>random.randint(a, b)\<close> returns \<open>a\<close> plus a draw below \<open>b - a + 1\<close>, and raises
  \<open>ValueError\<close> on an empty range; \<open>random.choice(seq)\<close> indexes \<open>seq\<close> with a draw
  below its length, and raises \<open>IndexError\<close> on an empty sequence.
\<close>

definition randbelow :: "nat \<Rightarrow> nat sim" where
  "randbelow n w = Inr (randbits w 0 mod n, w\<lparr>randbits := tail_of (randbits w)\<rparr>)"

definition random_randint :: "int \<Rightarrow> int \<Rightarrow> int sim" where
  "random_randint a b =
     (if b < a then raises ValueError
      else bind_sim (randbelow (nat (b - a + 1))) (\<lambda>k. returns (a + int k)))"

definition random_choice :: "'a list \<Rightarrow> 'a sim" where
  "random_choice seq =
     (if seq = [] then raises IndexError
      else bind_sim (randbelow (length seq)) (\<lambda>k. returns (seq ! k)))"

subsection \<open>Library arithmetic: rounding and dates\<close>

text \<open>Round to the nearest integer, ties to the even neighbour, as \<open>round\<close> does.\<close>

definition round_half_even :: "real \<Rightarrow> int" where
  "round_half_even x =
     (if x - of_int \<lfloor>x\<rfloor> < 1 / 2 then \<lfloor>x\<rfloor>
      else if x - of_int \<lfloor>x\<rfloor> > 1 / 2 then \<lfloor>x\<rfloor> + 1
      else if even \<lfloor>x\<rfloor> then \<lfloor>x\<rfloor> else \<lfloor>x\<rfloor> + 1)"

text \<open>\<open>round(x, ndigits)\<close> for the digit counts 0, 1 and 2 that the code uses.\<close>

definition py_round :: "real \<Rightarrow> nat \<Rightarrow> real" where
  "py_round x ndigits = of_int (round_half_even (x * 10 ^ ndigits)) / 10 ^ ndigits"

definition usec_per_hour :: int where
  "usec_per_hour = 3600000000"

definition usec_per_day :: int where
  "usec_per_day = 86400000000"

definition timedelta_hours :: "int \<Rightarrow> int" where
  "timedelta_hours h = h * usec_per_hour"

definition timedelta_days :: "int \<Rightarrow> int" where
  "timedelta_days d = d * usec_per_day"

text \<open>\<open>timedelta(days=x)\<close> for a float \<open>x\<close> rounds to whole microseconds.\<close>

definition timedelta_days_float :: "real \<Rightarrow> int" where
  "timedelta_days_float x = round_half_even (x * of_int usec_per_day)"

text \<open>\<open>(a - b).days\<close>: whole days of the difference, rounded towards minus infinity.\<close>

definition days_between :: "int \<Rightarrow> int \<Rightarrow> int" where
  "days_between a b = (a - b) div usec_per_day"

text \<open>
  The library's range checks, used where a claim depends on them: a \<open>timedelta\<close>
  holds at most 999999999 days either way, and \<open>datetime + timedelta\<close> raises
  \<open>OverflowError\<close> when the sum leaves the years 1 to 9999, that is the ordinals 1 to
  3652059.
\<close>

definition make_timedelta :: "int \<Rightarrow> error + int" where
  "make_timedelta usec =
     (if - 999999999 \<le> usec div usec_per_day \<and> usec div usec_per_day \<le> 999999999
      then Inr usec else Inl OverflowError)"

definition datetime_limit :: int where
  "datetime_limit = 3652059 * usec_per_day"

definition datetime_add :: "int \<Rightarrow> int \<Rightarrow> error + int" where
  "datetime_add t delta =
     (if 0 \<le> t + delta \<and> t + delta < datetime_limit then Inr (t + delta)
      else Inl OverflowError)"

definition dt_hour :: "int \<Rightarrow> int" where
  "dt_hour t = (t div usec_per_hour) mod 24"

definition toordinal :: "int \<Rightarrow> int" where
  "toordinal t = t div usec_per_day + 1"

definition days_in_month_tbl :: "int list" where
  "days_in_month_tbl = [-1, 31, 28, 31, 30, 31, 30, 31, 31, 30, 31, 30, 31]"

definition days_before_month_tbl :: "int list" where
  "days_before_month_tbl = [-1, 0, 31, 59, 90, 120, 151, 181, 212, 243, 273, 304, 334]"

text \<open>
  The library's conversion of a proleptic Gregorian ordinal (1 is 0001-01-01) to year,
  month and day.
\<close>

definition ord2ymd :: "int \<Rightarrow> int \<times> int \<times> int" where
  "ord2ymd ordinal =
     (let n0 = ordinal - 1;
          n400 = n0 div 146097; n1 = n0 mod 146097;
          n100 = n1 div 36524; n2 = n1 mod 36524;
          n4 = n2 div 1461; n3 = n2 mod 1461;
          n1y = n3 div 365; n = n3 mod 365;
          year = n400 * 400 + 1 + n100 * 100 + n4 * 4 + n1y
      in if n1y = 4 \<or> n100 = 4 then (year - 1, 12, 31)
         else
           let leapyear = (n1y = 3 \<and> (n4 \<noteq> 24 \<or> n100 = 3));
               month = (n + 50) div 32;
               preceding = days_before_month_tbl ! nat month
                           + (if month > 2 \<and> leapyear then 1 else 0)
           in if preceding > n
              then let month' = month - 1;
                       preceding' = preceding - (days_in_month_tbl ! nat month'
                                      + (if month' = 2 \<and> leapyear then 1 else 0))
                   in (year, month', n - preceding' + 1)
              else (year, month, n - preceding + 1))"

definition dt_month :: "int \<Rightarrow> int" where
  "dt_month t = fst (snd (ord2ymd (toordinal t)))"

section \<open>MalaysianFarmSimulator (services/data\_simulator.py)\<close>

subsection \<open>Lookup tables\<close>

record weather_pattern =
  months :: "int list"
  temp_range :: "real \<times> real"
  humidity_range :: "real \<times> real"
  rainfall_range :: "real \<times> real"
  soil_moisture_modifier :: real

definition weather_patterns :: "(string \<times> weather_pattern) list" where
  "weather_patterns =
     [(''dry_season'',
         \<lparr>months = [6, 7, 8, 9], temp_range = (26, 35), humidity_range = (60, 80),
          rainfall_range = (0, 15), soil_moisture_modifier = -10\<rparr>),
      (''wet_season'',
         \<lparr>months = [10, 11, 12, 1, 2, 3], temp_range = (24, 32), humidity_range = (70, 95),
          rainfall_range = (10, 80), soil_moisture_modifier = 15\<rparr>),
      (''transition'',
         \<lparr>months = [4, 5], temp_range = (25, 33), humidity_range = (65, 85),
          rainfall_range = (5, 40), soil_moisture_modifier = 0\<rparr>)]"

record crop_info =
  varieties :: "string list"
  growth_stages :: "string list"
  growth_cycle_days :: int
  yield_range :: "real \<times> real"
  optimal_ph :: "real \<times> real"
  optimal_moisture :: "real \<times> real"
  optimal_temp :: "real \<times> real"

definition crop_data :: "(string \<times> crop_info) list" where
  "crop_data =
     [(''rice'',
         \<lparr>varieties = [''MR220'', ''MR219'', ''MR297'', ''Bario'', ''Fragrant Rice''],
          growth_stages = [''seedling'', ''tillering'', ''panicle_initiation'', ''flowering'',
                           ''grain_filling'', ''maturity''],
          growth_cycle_days = 120, yield_range = (3000, 7000), optimal_ph = (5.5, 7.0),
          optimal_moisture = (80, 95), optimal_temp = (26, 32)\<rparr>),
      (''palm_oil'',
         \<lparr>varieties = [''Dura'', ''Pisifera'', ''Tenera'', ''MPOB Yangambi'', ''FELDA''],
          growth_stages = [''nursery'', ''immature'', ''young_mature'', ''prime_mature'',
                           ''old_mature''],
          growth_cycle_days = 365, yield_range = (15000, 25000), optimal_ph = (4.5, 6.5),
          optimal_moisture = (60, 80), optimal_temp = (24, 28)\<rparr>),
      (''rubber'',
         \<lparr>varieties = [''RRIM 600'', ''RRIM 2020'', ''RRIM 3001'', ''PB 260'', ''GT 1''],
          growth_stages = [''immature'', ''young_tapping'', ''peak_production'', ''declining''],
          growth_cycle_days = 365, yield_range = (1200, 2500), optimal_ph = (4.5, 6.0),
          optimal_moisture = (70, 85), optimal_temp = (24, 30)\<rparr>),
      (''durian'',
         \<lparr>varieties = [''Musang King'', ''D24'', ''Red Prawn'', ''IOI'', ''Tekka''],
          growth_stages = [''flowering'', ''fruit_set'', ''fruit_development'', ''ripening'',
                           ''harvest''],
          growth_cycle_days = 150, yield_range = (8000, 15000), optimal_ph = (6.0, 7.5),
          optimal_moisture = (70, 90), optimal_temp = (26, 32)\<rparr>),
      (''banana'',
         \<lparr>varieties = [''Cavendish'', ''Pisang Mas'', ''Pisang Raja'', ''Berangan'', ''Rastali''],
          growth_stages = [''sucker'', ''vegetative'', ''flowering'', ''bunch_development'',
                           ''harvest''],
          growth_cycle_days = 300, yield_range = (20000, 40000), optimal_ph = (5.5, 7.0),
          optimal_moisture = (75, 85), optimal_temp = (26, 30)\<rparr>),
      (''coconut'',
         \<lparr>varieties = [''Malayan Dwarf'', ''Malayan Tall'', ''MATAG'', ''MAWA'', ''Hybrid''],
          growth_stages = [''seedling'', ''juvenile'', ''flowering'', ''bearing'', ''mature''],
          growth_cycle_days = 365, yield_range = (6000, 12000), optimal_ph = (5.2, 8.0),
          optimal_moisture = (60, 80), optimal_temp = (27, 32)\<rparr>)]"

subsection \<open>get\_current\_season and generate\_weather\_data\<close>

text \<open>
  The loop of \<open>get_current_season\<close> over the items of \<open>weather_patterns\<close>: the first
  season whose month list holds the month, \<open>transition\<close> when none does.
\<close>

fun season_of_month :: "int \<Rightarrow> (string \<times> weather_pattern) list \<Rightarrow> string" where
  "season_of_month month [] = ''transition''"
| "season_of_month month ((season, data) # rest) =
     (if month \<in> set (months data) then season else season_of_month month rest)"

definition get_current_season :: "string sim" where
  "get_current_season =
     bind_sim datetime_now (\<lambda>now. returns (season_of_month (dt_month now) weather_patterns))"

record location =
  lat :: real
  lng :: real

record weather_sample =
  ws_temperature :: real
  ws_humidity :: real
  ws_rainfall :: real
  ws_light_intensity :: real
  ws_season :: string
  ws_time :: int

definition generate_weather_data :: "location \<Rightarrow> int \<Rightarrow> weather_sample sim" where
  "generate_weather_data base_location time_offset_hours =
     bind_sim get_current_season (\<lambda>season.
     bind_sim (lift_err (subscript weather_patterns season)) (\<lambda>weather.
     bind_sim datetime_now (\<lambda>now.
     let current_time = now + timedelta_hours time_offset_hours;
         hour = dt_hour current_time
     in
     bind_sim (random_uniform (temp_range weather)) (\<lambda>temp_base.
     bind_sim (if 6 \<le> hour \<and> hour \<le> 18
               then returns (sin (pi * of_int (hour - 6) / 12) * 3)
               else bind_sim (random_uniform (2, 5)) (\<lambda>r. returns (- r))) (\<lambda>temp_modifier.
     let temperature = py_round (temp_base + temp_modifier) 1 in
     bind_sim (random_uniform (humidity_range weather)) (\<lambda>humidity_base.
     let humidity = py_round (max 50 (humidity_base - (temperature - 27) * 2)) 1;
         rainfall_chance = (if season = ''dry_season'' then 0.3 else 0.7 :: real)
     in
     bind_sim random_random (\<lambda>roll.
     bind_sim (if roll < rainfall_chance
               then bind_sim (random_uniform (rainfall_range weather))
                      (\<lambda>r. returns (py_round r 1))
               else returns 0.0) (\<lambda>rainfall.
     bind_sim (if 6 \<le> hour \<and> hour \<le> 18
               then let base_light = 50000 + of_int ((hour - 12) ^ 2) * (- 2000)
                    in returns (if rainfall > 10 then base_light * 0.3 else base_light)
               else random_uniform (0, 100)) (\<lambda>base_light.
     returns
       \<lparr>ws_temperature = temperature,
        ws_humidity = humidity,
        ws_rainfall = rainfall,
        ws_light_intensity = py_round (max 0 base_light) 0,
        ws_season = season,
        ws_time = current_time\<rparr>)))))))))"

subsection \<open>generate\_soil\_data\<close>

record soil_sample =
  so_soil_moisture :: real
  so_ph_level :: real
  so_nitrogen :: real
  so_phosphorus :: real
  so_potassium :: real
  so_organic_matter :: real

definition generate_soil_data :: "string \<Rightarrow> weather_sample \<Rightarrow> soil_sample sim" where
  "generate_soil_data crop_type weather_data =
     bind_sim (lift_err (subscript crop_data ''rice'')) (\<lambda>rice.
     let crop_info = get_default crop_data crop_type rice in
     bind_sim (random_uniform (optimal_moisture crop_info)) (\<lambda>moisture_base.
     bind_sim (if ws_rainfall weather_data > 20 then random_uniform (5, 15)
               else if ws_rainfall weather_data = 0 then random_uniform (-10, -5)
               else random_uniform (-2, 5)) (\<lambda>moisture_modifier.
     bind_sim (lift_err (subscript weather_patterns (ws_season weather_data))) (\<lambda>pattern.
     let season_modifier = soil_moisture_modifier pattern;
         soil_moisture =
           py_round (max 20 (min 100 (moisture_base + moisture_modifier + season_modifier))) 1;
         ph_range = optimal_ph crop_info
     in
     bind_sim (random_uniform (fst ph_range - 0.5, snd ph_range + 0.5)) (\<lambda>ph.
     bind_sim (random_uniform (20, 80)) (\<lambda>n.
     bind_sim (random_uniform (10, 50)) (\<lambda>p.
     bind_sim (random_uniform (100, 300)) (\<lambda>k.
     bind_sim (random_uniform (2.0, 8.0)) (\<lambda>om.
     returns
       \<lparr>so_soil_moisture = soil_moisture,
        so_ph_level = py_round ph 1,
        so_nitrogen = py_round n 1,
        so_phosphorus = py_round p 1,
        so_potassium = py_round k 1,
        so_organic_matter = py_round om 1\<rparr>)))))))))"

subsection \<open>generate\_crop\_data\<close>

text \<open>
  A crop dictionary. The dates are kept as instants (the ISO text of the source is their
  rendering); \<open>c_growth_rate\<close> and \<open>c_last_growth_update\<close> are the two keys that only
  \<open>update_crop_progress\<close> adds.
\<close>

record crop =
  c_id :: string
  c_type :: string
  c_variety :: string
  c_planted_date :: int
  c_expected_harvest :: int
  c_growth_stage :: string
  c_growth_progress :: real
  c_yield_estimate :: real
  c_yield_per_hectare :: real
  c_health_status :: string
  c_disease_risk :: string
  c_pest_pressure :: string
  c_irrigation_needs :: string
  c_fertilizer_last_applied :: int
  c_pesticide_last_applied :: int
  c_growth_rate :: "real option"
  c_last_growth_update :: "int option"

text \<open>\<open>int(x)\<close> on a float truncates towards zero.\<close>

definition py_int :: "real \<Rightarrow> int" where
  "py_int x = (if 0 \<le> x then \<lfloor>x\<rfloor> else \<lceil>x\<rceil>)"

text \<open>\<open>xs[i]\<close>: a negative index counts from the end, out of range raises.\<close>

definition py_index :: "'a list \<Rightarrow> int \<Rightarrow> error + 'a" where
  "py_index xs i =
     (let j = (if i < 0 then int (length xs) + i else i)
      in if 0 \<le> j \<and> j < int (length xs) then Inr (xs ! nat j) else Inl IndexError)"

definition generate_crop_data :: "string \<Rightarrow> real \<Rightarrow> crop sim" where
  "generate_crop_data crop_type plot_area =
     bind_sim (lift_err (subscript crop_data crop_type)) (\<lambda>crop_info.
     bind_sim (random_choice (varieties crop_info)) (\<lambda>variety.
     bind_sim (random_randint 10 (growth_cycle_days crop_info - 30)) (\<lambda>days_since_planted.
     let total_stages = int (length (growth_stages crop_info)) in
     bind_sim (lift_err (truediv (of_int (growth_cycle_days crop_info)) (of_int total_stages)))
       (\<lambda>stage_duration.
     bind_sim (lift_err (truediv (of_int days_since_planted) stage_duration)) (\<lambda>stages_done.
     let current_stage_index = min (py_int stages_done) (total_stages - 1) in
     bind_sim (lift_err (py_index (growth_stages crop_info) current_stage_index))
       (\<lambda>growth_stage.
     bind_sim (lift_err (truediv (of_int days_since_planted)
                           (of_int (growth_cycle_days crop_info)))) (\<lambda>elapsed.
     let progress_percentage = elapsed * 100 in
     bind_sim (random_uniform (yield_range crop_info)) (\<lambda>base_yield.
     bind_sim (if growth_stage \<in> set [''maturity'', ''harvest'', ''ripening'']
               then random_uniform (0.9, 1.1) else random_uniform (0.3, 0.8))
       (\<lambda>yield_modifier.
     let estimated_yield = py_round (base_yield * yield_modifier * plot_area) 0 in
     bind_sim datetime_now (\<lambda>now.
     let planted_date = now - timedelta_days days_since_planted;
         expected_harvest = planted_date + timedelta_days (growth_cycle_days crop_info)
     in
     bind_sim uuid4 (\<lambda>ident.
     bind_sim (lift_err (truediv estimated_yield plot_area)) (\<lambda>per_hectare.
     bind_sim (random_choice [''excellent'', ''good'', ''fair'', ''poor'']) (\<lambda>health.
     bind_sim (random_choice [''low'', ''medium'', ''high'']) (\<lambda>disease.
     bind_sim (random_choice [''minimal'', ''moderate'', ''high'']) (\<lambda>pest.
     bind_sim (random_choice [''low'', ''medium'', ''high'']) (\<lambda>irrigation.
     bind_sim datetime_now (\<lambda>now_f.
     bind_sim (random_randint 7 60) (\<lambda>days_f.
     bind_sim datetime_now (\<lambda>now_p.
     bind_sim (random_randint 14 90) (\<lambda>days_p.
     returns
       \<lparr>c_id = ident,
        c_type = crop_type,
        c_variety = variety,
        c_planted_date = planted_date,
        c_expected_harvest = expected_harvest,
        c_growth_stage = growth_stage,
        c_growth_progress = py_round progress_percentage 1,
        c_yield_estimate = estimated_yield,
        c_yield_per_hectare = py_round per_hectare 0,
        c_health_status = health,
        c_disease_risk = disease,
        c_pest_pressure = pest,
        c_irrigation_needs = irrigation,
        c_fertilizer_last_applied = now_f - timedelta_days days_f,
        c_pesticide_last_applied = now_p - timedelta_days days_p,
        c_growth_rate = None,
        c_last_growth_update = None\<rparr>))))))))))))))))))))"

section \<open>CropGrowthSimulator: update\_crop\_progress\<close>

definition stage_thresholds :: "(string \<times> (string \<times> int) list) list" where
  "stage_thresholds =
     [(''rice'',
         [(''seedling'', 0), (''tillering'', 30), (''panicle_initiation'', 60),
          (''flowering'', 90), (''grain_filling'', 105), (''maturity'', 120)]),
      (''palm_oil'',
         [(''nursery'', 0), (''immature'', 90), (''young_mature'', 180),
          (''prime_mature'', 270), (''old_mature'', 300)]),
      (''rubber'',
         [(''immature'', 0), (''young_tapping'', 120), (''peak_production'', 240),
          (''declining'', 300)]),
      (''durian'',
         [(''flowering'', 0), (''fruit_set'', 30), (''fruit_development'', 90),
          (''ripening'', 120), (''harvest'', 150)]),
      (''banana'',
         [(''sucker'', 0), (''vegetative'', 60), (''flowering'', 180),
          (''bunch_development'', 240), (''harvest'', 300)]),
      (''coconut'',
         [(''seedling'', 0), (''juvenile'', 90), (''flowering'', 180),
          (''bearing'', 270), (''mature'', 365)])]"

definition get_stage_thresholds :: "string \<Rightarrow> error + (string \<times> int) list" where
  "get_stage_thresholds crop_type =
     bind_err (subscript stage_thresholds ''rice'')
       (\<lambda>rice. Inr (get_default stage_thresholds crop_type rice))"

definition cycles :: "(string \<times> int) list" where
  "cycles =
     [(''rice'', 120), (''palm_oil'', 365), (''rubber'', 365),
      (''durian'', 150), (''banana'', 300), (''coconut'', 365)]"

definition get_cycle_days :: "string \<Rightarrow> int" where
  "get_cycle_days crop_type = get_default cycles crop_type 120"

text \<open>The loop that picks the last stage whose threshold the progress has reached.\<close>

fun stage_loop :: "real \<Rightarrow> (string \<times> int) list \<Rightarrow> string \<Rightarrow> string" where
  "stage_loop actual_progress [] current_stage = current_stage"
| "stage_loop actual_progress ((stage, threshold) # rest) current_stage =
     stage_loop actual_progress rest
       (if actual_progress \<ge> of_int threshold then stage else current_stage)"

definition update_crop_progress :: "crop \<Rightarrow> real \<Rightarrow> crop sim" where
  "update_crop_progress crop_rec growth_rate =
     bind_sim datetime_now (\<lambda>now.
     let days_since_planted = days_between now (c_planted_date crop_rec);
         actual_progress = of_int days_since_planted * growth_rate;
         crop_type = c_type crop_rec
     in
     bind_sim (lift_err (get_stage_thresholds crop_type)) (\<lambda>thresholds.
     let current_stage = stage_loop actual_progress thresholds ''seedling'';
         base_yield = c_yield_estimate crop_rec;
         yield_modifier = (if growth_rate > 1.2 then 1.1
                           else if growth_rate < 0.8 then 0.9 else 1.0);
         updated_yield = base_yield * yield_modifier;
         total_cycle_days = get_cycle_days crop_type
     in
     bind_sim (lift_err (truediv (of_int total_cycle_days - actual_progress) growth_rate))
       (\<lambda>remaining_days.
     bind_sim datetime_now (\<lambda>now_h.
     let expected_harvest = now_h + timedelta_days_float remaining_days in
     bind_sim (lift_err (truediv actual_progress (of_int total_cycle_days))) (\<lambda>done.
     bind_sim datetime_now (\<lambda>now_u.
     returns
       (crop_rec
          \<lparr>c_growth_stage := current_stage,
           c_growth_progress := min 100 (done * 100),
           c_growth_rate := Some (py_round growth_rate 2),
           c_yield_estimate := py_round updated_yield 0,
           c_expected_harvest := expected_harvest,
           c_last_growth_update := Some now_u\<rparr>)))))))"

section \<open>MalaysianFarmSimulator: alerts and forecast\<close>

subsection \<open>simulate\_equipment\_alerts\<close>

text \<open>
  An equipment dictionary, restricted to the keys that \<open>simulate_equipment_alerts\<close>
  reads; \<open>e_fuel_level\<close> is \<open>None\<close> when the key is absent or null, and
  \<open>e_last_maintenance\<close> is the instant that the ISO text denotes.
\<close>

record equipment =
  e_id :: string
  e_name :: string
  e_last_maintenance :: int
  e_fuel_level :: "int option"
  e_efficiency :: real

text \<open>
  The three message templates: \<open>Maintenance overdue by N days\<close>,
  \<open>Low fuel level: N%\<close> and \<open>Low efficiency: X%\<close>, each kept with its number.
\<close>

datatype alert_message =
    Maintenance_overdue int
  | Low_fuel_level int
  | Low_efficiency real

record alert =
  a_id :: string
  a_type :: string
  a_severity :: string
  a_equipment_id :: string
  a_equipment_name :: string
  a_message :: alert_message
  a_timestamp :: int
  a_action_required :: string

definition new_alert ::
  "string \<Rightarrow> string \<Rightarrow> equipment \<Rightarrow> alert_message \<Rightarrow> string \<Rightarrow> alert sim" where
  "new_alert kind severity eq msg action =
     bind_sim uuid4 (\<lambda>ident.
     bind_sim datetime_now (\<lambda>now.
     returns
       \<lparr>a_id = ident, a_type = kind, a_severity = severity, a_equipment_id = e_id eq,
        a_equipment_name = e_name eq, a_message = msg, a_timestamp = now,
        a_action_required = action\<rparr>))"

text \<open>
  The body of the loop over the equipment list, appending to \<open>alerts\<close>. The fuel test
  is \<open>equipment.get("fuel_level") and equipment["fuel_level"] < 25\<close>: its first operand
  is false for a missing or null level and, being a truth test on a number, for zero.
\<close>

definition equipment_alerts :: "equipment \<Rightarrow> alert list \<Rightarrow> alert list sim" where
  "equipment_alerts eq alerts =
     bind_sim datetime_now (\<lambda>now.
     let days_since_maintenance = days_between now (e_last_maintenance eq) in
     bind_sim (if days_since_maintenance > 60
               then bind_sim (new_alert ''maintenance''
                               (if days_since_maintenance > 90 then ''high'' else ''medium'')
                               eq (Maintenance_overdue (days_since_maintenance - 60))
                               ''Schedule maintenance'')
                      (\<lambda>a. returns (alerts @ [a]))
               else returns alerts) (\<lambda>alerts1.
     bind_sim (case e_fuel_level eq of
                 None \<Rightarrow> returns alerts1
               | Some fuel_level \<Rightarrow>
                   if fuel_level \<noteq> 0 \<and> fuel_level < 25
                   then bind_sim (new_alert ''fuel''
                                   (if fuel_level > 15 then ''medium'' else ''high'')
                                   eq (Low_fuel_level fuel_level) ''Refuel equipment'')
                          (\<lambda>a. returns (alerts1 @ [a]))
                   else returns alerts1) (\<lambda>alerts2.
     if e_efficiency eq < 80
     then bind_sim (new_alert ''efficiency'' ''medium'' eq (Low_efficiency (e_efficiency eq))
                     ''Check equipment performance'')
            (\<lambda>a. returns (alerts2 @ [a]))
     else returns alerts2)))"

fun alerts_loop :: "equipment list \<Rightarrow> alert list \<Rightarrow> alert list sim" where
  "alerts_loop [] alerts = returns alerts"
| "alerts_loop (eq # rest) alerts =
     bind_sim (equipment_alerts eq alerts) (\<lambda>alerts'. alerts_loop rest alerts')"

definition simulate_equipment_alerts :: "equipment list \<Rightarrow> alert list sim" where
  "simulate_equipment_alerts equipment_list = alerts_loop equipment_list []"

text \<open>Two calls in a row on the same list; the second sees the world the first left.\<close>

definition simulate_twice :: "equipment list \<Rightarrow> (alert list \<times> alert list) sim" where
  "simulate_twice equipment_list =
     bind_sim (simulate_equipment_alerts equipment_list) (\<lambda>first_alerts.
     bind_sim (simulate_equipment_alerts equipment_list) (\<lambda>second_alerts.
     returns (first_alerts, second_alerts)))"

text \<open>What an alert says, apart from its fresh id and its time stamp.\<close>

definition alert_content ::
  "alert \<Rightarrow> string \<times> string \<times> string \<times> string \<times> alert_message \<times> string" where
  "alert_content a =
     (a_type a, a_severity a, a_equipment_id a, a_equipment_name a, a_message a,
      a_action_required a)"

subsection \<open>generate\_weather\_forecast\<close>

text \<open>
  One forecast entry. \<open>f_date\<close> is the calendar day of the entry, identified by its
  proleptic Gregorian ordinal (the text \<open>YYYY-MM-DD\<close> of the source is its rendering),
  \<open>f_day_name\<close> the name of its weekday.
\<close>

record forecast_day =
  f_date :: int
  f_day_name :: string
  f_temperature_min :: real
  f_temperature_max :: real
  f_humidity :: real
  f_rainfall_probability :: int
  f_rainfall_amount :: real
  f_wind_speed :: real
  f_uv_index :: int
  f_conditions :: string

definition day_names :: "string list" where
  "day_names = [''Monday'', ''Tuesday'', ''Wednesday'', ''Thursday'', ''Friday'',
                ''Saturday'', ''Sunday'']"

definition weekday_name :: "int \<Rightarrow> string" where
  "weekday_name t = day_names ! nat ((toordinal t + 6) mod 7)"

text \<open>
  \<open>generate_weather_data\<close> as the forecast calls it, on offsets that may carry the
  shifted time past the last valid \<open>datetime\<close>: the sum of its second clock reading
  and \<open>timedelta(hours=time_offset_hours)\<close> is range-checked, and the call raises
  \<open>OverflowError\<close> before any draw when the check fails.
\<close>

definition generate_weather_data_in_range :: "location \<Rightarrow> int \<Rightarrow> weather_sample sim" where
  "generate_weather_data_in_range base_location time_offset_hours w =
     (case bind_err (make_timedelta (timedelta_hours time_offset_hours))
             (datetime_add (clock w 1)) of
        Inl e \<Rightarrow> Inl e
      | Inr current_time \<Rightarrow> generate_weather_data base_location time_offset_hours w)"

text \<open>The body of the loop over \<open>range(1, days + 1)\<close>.\<close>

definition forecast_entry :: "location \<Rightarrow> int \<Rightarrow> forecast_day sim" where
  "forecast_entry loc day =
     bind_sim datetime_now (\<lambda>now.
     bind_sim (lift_err (bind_err (make_timedelta (timedelta_days day)) (datetime_add now)))
       (\<lambda>future_date.
     bind_sim (generate_weather_data_in_range loc (day * 24)) (\<lambda>weather_data.
     bind_sim (random_uniform (3, 8)) (\<lambda>below.
     bind_sim (random_uniform (2, 6)) (\<lambda>above.
     bind_sim (random_randint 20 80) (\<lambda>rain_probability.
     bind_sim (random_uniform (5, 20)) (\<lambda>wind.
     bind_sim (random_randint 6 12) (\<lambda>uv.
     bind_sim (random_choice [''Sunny'', ''Partly Cloudy'', ''Cloudy'', ''Light Rain'',
                              ''Heavy Rain'', ''Thunderstorms'', ''Hazy'']) (\<lambda>conditions.
     returns
       \<lparr>f_date = toordinal future_date,
        f_day_name = weekday_name future_date,
        f_temperature_min = py_round (ws_temperature weather_data - below) 1,
        f_temperature_max = py_round (ws_temperature weather_data + above) 1,
        f_humidity = ws_humidity weather_data,
        f_rainfall_probability = rain_probability,
        f_rainfall_amount = ws_rainfall weather_data,
        f_wind_speed = py_round wind 1,
        f_uv_index = uv,
        f_conditions = conditions\<rparr>)))))))))"

fun forecast_loop :: "nat \<Rightarrow> int \<Rightarrow> location \<Rightarrow> forecast_day list \<Rightarrow> forecast_day list sim" where
  "forecast_loop 0 day loc forecast = returns forecast"
| "forecast_loop (Suc n) day loc forecast =
     bind_sim (forecast_entry loc day) (\<lambda>entry.
     forecast_loop n (day + 1) loc (forecast @ [entry]))"

definition generate_weather_forecast :: "location \<Rightarrow> int \<Rightarrow> forecast_day list sim" where
  "generate_weather_forecast loc days = forecast_loop (nat days) 1 loc []"

section \<open>Example inputs\<close>

definition const_stream :: "'a \<Rightarrow> nat \<Rightarrow> 'a" where
  "const_stream c n = c"

text \<open>
  A world whose clock stands at 2024-05-31T23:00:00, and one whose clock stands at
  2024-05-31T06:00:00; every \<open>random()\<close> gives 0.5 and every integer draw is made
  from 7.
\<close>

definition world_may_night :: world where
  "world_may_night =
     \<lparr>clock = const_stream 63852793200000000, randoms = const_stream (1 / 2),
      randbits = const_stream 7, uuids = const_stream ''00000000-0000-4000-8000-000000000000''\<rparr>"

definition world_may_dawn :: world where
  "world_may_dawn =
     \<lparr>clock = const_stream 63852732000000000, randoms = const_stream (1 / 2),
      randbits = const_stream 7, uuids = const_stream ''00000000-0000-4000-8000-000000000000''\<rparr>"

definition kuala_lumpur :: location where
  "kuala_lumpur = \<lparr>lat = 3.139, lng = 101.6869\<rparr>"

text \<open>
  A world whose clock stands at 2024-05-31T23:00:00 and whose uuid generator gives a
  different text at every call.
\<close>

definition numbered_ids :: "nat \<Rightarrow> string" where
  "numbered_ids n = ''uuid-'' @ replicate n (CHR ''i'')"

definition world_fresh_ids :: world where
  "world_fresh_ids =
     \<lparr>clock = const_stream 63852793200000000, randoms = const_stream (1 / 2),
      randbits = const_stream 7, uuids = numbered_ids\<rparr>"

text \<open>
  A clock that advances by one microsecond at every reading. \<open>world_ticking\<close> starts
  it at 2024-05-31T23:00:00, \<open>world_midnight\<close> at 2024-05-31T23:59:59.999999, the last
  microsecond of the day; \<open>world_clock_set_back\<close> has a clock that reads
  2024-06-01T00:00:01 three times and 2024-05-31T23:59:00 from then on.
\<close>

definition ticking :: "int \<Rightarrow> nat \<Rightarrow> int" where
  "ticking t n = t + int n"

definition world_ticking :: world where
  "world_ticking =
     \<lparr>clock = ticking 63852793200000000, randoms = const_stream (1 / 2),
      randbits = const_stream 7, uuids = numbered_ids\<rparr>"

definition world_midnight :: world where
  "world_midnight =
     \<lparr>clock = ticking 63852796799999999, randoms = const_stream (1 / 2),
      randbits = const_stream 7, uuids = numbered_ids\<rparr>"

definition set_back :: "nat \<Rightarrow> int" where
  "set_back n = (if n < 3 then 63852796801000000 else 63852796740000000)"

definition world_clock_set_back :: world where
  "world_clock_set_back =
     \<lparr>clock = set_back, randoms = const_stream (1 / 2),
      randbits = const_stream 7, uuids = numbered_ids\<rparr>"

text \<open>
  A tractor serviced at 2024-05-31T23:00:00 with an empty tank, and one serviced 95 days
  before that with a full tank.
\<close>

definition tractor_empty_tank :: equipment where
  "tractor_empty_tank =
     \<lparr>e_id = ''eq-1'', e_name = ''Kubota M7040'', e_last_maintenance = 63852793200000000,
      e_fuel_level = Some 0, e_efficiency = 90\<rparr>"

definition tractor_overdue :: equipment where
  "tractor_overdue =
     \<lparr>e_id = ''eq-2'', e_name = ''John Deere 5E'', e_last_maintenance = 63844585200000000,
      e_fuel_level = Some 100, e_efficiency = 90\<rparr>"

text \<open>A rice crop whose planting date, 2024-06-02T23:00:00, is two days ahead of the clock.\<close>

definition rice_planted_ahead :: crop where
  "rice_planted_ahead =
     \<lparr>c_id = ''crop-1'', c_type = ''rice'', c_variety = ''MR220'',
      c_planted_date = 63852966000000000, c_expected_harvest = 63863334000000000,
      c_growth_stage = ''seedling'', c_growth_progress = 0, c_yield_estimate = 5000,
      c_yield_per_hectare = 2500, c_health_status = ''good'', c_disease_risk = ''low'',
      c_pest_pressure = ''minimal'', c_irrigation_needs = ''low'',
      c_fertilizer_last_applied = 63852793200000000,
      c_pesticide_last_applied = 63852793200000000,
      c_growth_rate = None, c_last_growth_update = None\<rparr>"

text \<open>The same crop planted 30 days before the clock, on 2024-05-01T23:00:00.\<close>

definition rice_planted_before :: crop where
  "rice_planted_before = rice_planted_ahead\<lparr>c_planted_date := 63850201200000000\<rparr>"

section \<open>Properties of calculate\_growth\_rate\<close>

lemma recent_data_nonempty: "sd \<noteq> [] \<Longrightarrow> recent_data sd \<noteq> []"
  by (cases sd) (simp_all add: recent_data_def)

lemma avg_conditions_ok:
  assumes "rd \<noteq> []"
  shows "avg_conditions rd =
     Inr [(''temperature'', sum_list (map r_temperature rd) / real (length rd)),
          (''humidity'', sum_list (map r_humidity rd) / real (length rd)),
          (''soil_moisture'', sum_list (map r_soil_moisture rd) / real (length rd)),
          (''ph_level'', sum_list (map r_ph_level rd) / real (length rd)),
          (''rainfall'', sum_list (map r_rainfall rd))]"
  using assms by (simp add: avg_conditions_def truediv_def bind_err_def)

lemma param_factor_ok:
  assumes "lo \<noteq> 0" and "hi \<noteq> 0"
  shows "\<exists>f. param_factor v (lo, hi) = Inr f"
  using assms by (simp add: param_factor_def truediv_def bind_err_def)

lemma factor_loop_growth_factors:
  "\<exists>tf. factor_loop [(''temperature'', t), (''humidity'', h), (''soil_moisture'', m),
          (''ph_level'', p), (''rainfall'', r)] growth_factors (0, 0) = Inr (tf, 1)"
proof -
  obtain f1 where f1: "param_factor t (26, 30) = Inr f1"
    using param_factor_ok [of 26 30 t] by auto
  obtain f2 where f2: "param_factor h (70, 85) = Inr f2"
    using param_factor_ok [of 70 85 h] by auto
  obtain f3 where f3: "param_factor m (70, 90) = Inr f3"
    using param_factor_ok [of 70 90 m] by auto
  obtain f4 where f4: "param_factor p (6, 7) = Inr f4"
    using param_factor_ok [of 6 7 p] by auto
  obtain f5 where f5: "param_factor r (10, 30) = Inr f5"
    using param_factor_ok [of 10 30 r] by auto
  show ?thesis
    by (simp add: growth_factors_def subscript_def bind_err_def f1 f2 f3 f4 f5)
qed

text \<open>
  C1. For every list of sensor readings and every crop type (the six known ones
  included), \<open>calculate_growth_rate\<close> returns a number, and that number lies in
  the interval from 0.1 to 2.0.
\<close>

theorem calculate_growth_rate_bounds:
  "\<exists>r. calculate_growth_rate sensor_data crop_type = Inr r \<and> 0.1 \<le> r \<and> r \<le> 2.0"
proof (cases "sensor_data = []")
  case True
  then show ?thesis by (simp add: calculate_growth_rate_def)
next
  case False
  then have rd: "recent_data sensor_data \<noteq> []" by (rule recent_data_nonempty)
  obtain tf where tf: "factor_loop
      [(''temperature'', sum_list (map r_temperature (recent_data sensor_data)) / real (length (recent_data sensor_data))),
       (''humidity'', sum_list (map r_humidity (recent_data sensor_data)) / real (length (recent_data sensor_data))),
       (''soil_moisture'', sum_list (map r_soil_moisture (recent_data sensor_data)) / real (length (recent_data sensor_data))),
       (''ph_level'', sum_list (map r_ph_level (recent_data sensor_data)) / real (length (recent_data sensor_data))),
       (''rainfall'', sum_list (map r_rainfall (recent_data sensor_data)))] growth_factors (0, 0) = Inr (tf, 1)"
    using factor_loop_growth_factors by blast
  show ?thesis
    using False rd
    by (simp add: calculate_growth_rate_def avg_conditions_ok [OF rd] tf bind_err_def truediv_def)
qed





text \<open>
  C3. On the empty list of readings \<open>calculate_growth_rate\<close> returns exactly 1.0 for
  every crop type; no division is attempted, so no \<open>ZeroDivisionError\<close> is raised.
\<close>

theorem calculate_growth_rate_empty:
  "calculate_growth_rate [] crop_type = Inr 1.0"
  by (simp add: calculate_growth_rate_def)

section \<open>Properties of generate\_weather\_data\<close>

lemma tail_of_const_stream: "tail_of (const_stream c) = const_stream c"
  by (rule ext) (simp add: tail_of_def const_stream_def)

lemma round_half_even_nonneg: "0 \<le> x \<Longrightarrow> 0 \<le> round_half_even x"
  by (simp add: round_half_even_def)

lemma round_half_even_0: "round_half_even 0 = 0"
  by (simp add: round_half_even_def)

lemma py_round_nonneg: "0 \<le> x \<Longrightarrow> 0 \<le> py_round x n"
  by (simp add: py_round_def round_half_even_nonneg)

lemma py_round_0: "py_round 0 n = 0"
  by (simp add: py_round_def round_half_even_0)

lemma season_lookup_ok:
  "\<exists>p. subscript weather_patterns (season_of_month m weather_patterns) = Inr p"
  by (simp add: weather_patterns_def subscript_def)

lemma generate_weather_data_facts:
  "\<exists>ws w'. generate_weather_data loc off w = Inr (ws, w')
     \<and> ws_season ws = season_of_month (dt_month (clock w 0)) weather_patterns
     \<and> ws_time ws = clock w 1 + timedelta_hours off
     \<and> 0 \<le> ws_light_intensity ws
     \<and> (dt_hour (clock w 1 + timedelta_hours off) = 6
          \<or> dt_hour (clock w 1 + timedelta_hours off) = 18 \<longrightarrow> ws_light_intensity ws = 0)
     \<and> clock w' = tail_of (tail_of (clock w))"
proof -
  obtain p where p: "subscript weather_patterns (season_of_month (dt_month (clock w 0)) weather_patterns) = Inr p"
    using season_lookup_ok by blast
  show ?thesis
  proof (cases "6 \<le> dt_hour (clock w 1 + timedelta_hours off)
                \<and> dt_hour (clock w 1 + timedelta_hours off) \<le> 18")
    case True
    then show ?thesis
      by (simp add: generate_weather_data_def get_current_season_def bind_sim_def
          datetime_now_def returns_def lift_err_def p random_uniform_def random_random_def
          Let_def tail_of_def py_round_nonneg py_round_0 split: prod.splits)
  next
    case False
    then have "dt_hour (clock w 1 + timedelta_hours off) \<noteq> 6"
      and "dt_hour (clock w 1 + timedelta_hours off) \<noteq> 18"
      by auto
    with False show ?thesis
      by (simp add: generate_weather_data_def get_current_season_def bind_sim_def
          datetime_now_def returns_def lift_err_def p random_uniform_def random_random_def
          Let_def tail_of_def py_round_nonneg py_round_0 split: prod.splits)
  qed
qed


lemmas world_eval = bind_sim_def datetime_now_def returns_def lift_err_def random_uniform_def
  random_random_def tail_of_const_stream value_of_def const_stream_def

text \<open>
  C7, as stated, fails: with the clock at 2024-05-31T23:00 and an offset of 24 hours the
  sample is timed in June, whose season is the dry season, yet it carries the season of
  May.
\<close>

theorem generate_weather_data_season_counterexample:
  "map_option ws_season (value_of (generate_weather_data kuala_lumpur 24 world_may_night))
     = Some ''transition''
   \<and> map_option ws_time (value_of (generate_weather_data kuala_lumpur 24 world_may_night))
     = Some 63852879600000000
   \<and> dt_month 63852879600000000 = 6
   \<and> season_of_month (dt_month 63852879600000000) weather_patterns = ''dry_season''"
  by (simp add: generate_weather_data_def get_current_season_def world_may_night_def
      world_eval subscript_def weather_patterns_def timedelta_hours_def usec_per_hour_def
      dt_month_def toordinal_def ord2ymd_def usec_per_day_def dt_hour_def
      days_before_month_tbl_def days_in_month_tbl_def Let_def)

text \<open>
  C7, amended. For every \<open>time_offset_hours\<close>, \<open>generate_weather_data\<close> returns a
  sample whose season is the one of the month of the current wall-clock time as
  \<open>get_current_season\<close> reads it, not shifted by the offset; only the time of the sample
  is shifted. Months 6 to 9 are the dry season, months 10 to 12 and 1 to 3 the wet
  season, months 4 and 5 the transition.
\<close>

theorem generate_weather_data_season:
  "(\<exists>ws w'. generate_weather_data loc time_offset_hours w = Inr (ws, w')
       \<and> ws_season ws = season_of_month (dt_month (clock w 0)) weather_patterns
       \<and> ws_time ws = clock w 1 + timedelta_hours time_offset_hours)
   \<and> map (\<lambda>month. season_of_month month weather_patterns) [1, 2, 3, 4, 5, 6, 7, 8, 9, 10, 11, 12]
       = [''wet_season'', ''wet_season'', ''wet_season'', ''transition'', ''transition'',
          ''dry_season'', ''dry_season'', ''dry_season'', ''dry_season'',
          ''wet_season'', ''wet_season'', ''wet_season'']"
proof -
  have "map (\<lambda>month. season_of_month month weather_patterns) [1, 2, 3, 4, 5, 6, 7, 8, 9, 10, 11, 12]
       = [''wet_season'', ''wet_season'', ''wet_season'', ''transition'', ''transition'',
          ''dry_season'', ''dry_season'', ''dry_season'', ''dry_season'',
          ''wet_season'', ''wet_season'', ''wet_season'']"
    by (simp add: weather_patterns_def)
  then show ?thesis
    using generate_weather_data_facts [of loc time_offset_hours w] by blast
qed

text \<open>
  C10. Every weather sample returned by \<open>generate_weather_data\<close> has a light intensity
  of at least 0, and when the hour of the sample is 6 or 18 the day curve is negative and
  the light intensity returned is exactly 0.
\<close>

theorem generate_weather_data_light:
  "\<exists>ws w'. generate_weather_data loc time_offset_hours w = Inr (ws, w')
     \<and> 0 \<le> ws_light_intensity ws
     \<and> (dt_hour (clock w 1 + timedelta_hours time_offset_hours) = 6
          \<or> dt_hour (clock w 1 + timedelta_hours time_offset_hours) = 18
        \<longrightarrow> ws_light_intensity ws = 0)"
  using generate_weather_data_facts [of loc time_offset_hours w] by blast

theorem generate_weather_data_light_witness:
  "dt_hour (clock world_may_dawn 1 + timedelta_hours 0) = 6
   \<and> map_option ws_light_intensity
        (value_of (generate_weather_data kuala_lumpur 0 world_may_dawn)) = Some 0
   \<and> dt_hour (clock world_may_dawn 1 + timedelta_hours 12) = 18
   \<and> map_option ws_light_intensity
        (value_of (generate_weather_data kuala_lumpur 12 world_may_dawn)) = Some 0"
proof -
  have h6: "dt_hour (clock world_may_dawn 1 + timedelta_hours 0) = 6"
    by (simp add: world_may_dawn_def const_stream_def timedelta_hours_def dt_hour_def
        usec_per_hour_def)
  have h18: "dt_hour (clock world_may_dawn 1 + timedelta_hours 12) = 18"
    by (simp add: world_may_dawn_def const_stream_def timedelta_hours_def dt_hour_def
        usec_per_hour_def)
  from h6 generate_weather_data_light [of kuala_lumpur 0 world_may_dawn]
  have a: "map_option ws_light_intensity
        (value_of (generate_weather_data kuala_lumpur 0 world_may_dawn)) = Some 0"
    by (auto simp: value_of_def)
  from h18 generate_weather_data_light [of kuala_lumpur 12 world_may_dawn]
  have b: "map_option ws_light_intensity
        (value_of (generate_weather_data kuala_lumpur 12 world_may_dawn)) = Some 0"
    by (auto simp: value_of_def)
  show ?thesis using h6 a h18 b by blast
qed

section \<open>Unknown crop types\<close>

text \<open>
  The lookups of \<open>generate_soil_data\<close>, \<open>get_stage_thresholds\<close> and
  \<open>get_cycle_days\<close> take the rice entry for a crop type that is not in the table.
\<close>

lemma generate_soil_data_unknown_crop:
  assumes "crop_type \<notin> set (map fst crop_data)"
  shows "generate_soil_data crop_type weather_data w = generate_soil_data ''rice'' weather_data w"
proof -
  have "map_of crop_data crop_type = None"
    using assms by (simp add: map_of_eq_None_iff)
  then show ?thesis
    by (simp add: generate_soil_data_def get_default_def subscript_def bind_sim_def lift_err_def
        crop_data_def)
qed

lemma stage_lookups_unknown_crop:
  assumes "crop_type \<notin> set (map fst crop_data)"
  shows "get_stage_thresholds crop_type = get_stage_thresholds ''rice''"
    and "get_cycle_days crop_type = get_cycle_days ''rice''"
  using assms
  by (simp_all add: get_stage_thresholds_def get_cycle_days_def get_default_def subscript_def
      bind_err_def crop_data_def stage_thresholds_def cycles_def)

text \<open>
  C4. \<open>generate_crop_data\<close> does not fall back to the rice profile: on the crop type
  \<open>wheat\<close> its subscript lookup raises \<open>KeyError\<close>.
\<close>

theorem generate_crop_data_unknown_crop:
  "generate_crop_data ''wheat'' 2 world_may_night = Inl (KeyError ''wheat'')"
  by (simp add: generate_crop_data_def bind_sim_def lift_err_def subscript_def crop_data_def)

section \<open>Properties of simulate\_equipment\_alerts\<close>

text \<open>
  C5. An equipment item whose fuel level is present and equal to 0 gets no fuel alert:
  the list of alerts for a freshly serviced, efficient tractor with an empty tank is
  empty.
\<close>

theorem simulate_equipment_alerts_empty_tank:
  "value_of (simulate_equipment_alerts [tractor_empty_tank] world_fresh_ids) = Some []"
  by (simp add: simulate_equipment_alerts_def equipment_alerts_def tractor_empty_tank_def
      world_fresh_ids_def world_eval days_between_def)

lemma simulate_equipment_alerts_low_tank:
  "map_option (map (\<lambda>a. (a_type a, a_severity a)))
     (value_of (simulate_equipment_alerts [tractor_empty_tank\<lparr>e_fuel_level := Some 10\<rparr>]
        world_fresh_ids)) = Some [(''fuel'', ''high'')]"
  by (simp add: simulate_equipment_alerts_def equipment_alerts_def tractor_empty_tank_def
      world_fresh_ids_def world_eval days_between_def new_alert_def uuid4_def)

text \<open>
  C6, as stated, fails: two calls in a row on the same one-element list give two lists
  that are not equal, since the alert of the second call has another id.
\<close>

theorem simulate_twice_counterexample:
  "map_option fst (value_of (simulate_twice [tractor_overdue] world_fresh_ids))
     \<noteq> map_option snd (value_of (simulate_twice [tractor_overdue] world_fresh_ids))"
  by (simp add: simulate_twice_def simulate_equipment_alerts_def equipment_alerts_def
      tractor_overdue_def world_fresh_ids_def world_eval days_between_def new_alert_def
      uuid4_def usec_per_day_def numbered_ids_def tail_of_def)

lemma new_alert_returns:
  "new_alert kind severity eq msg action w =
     Inr (\<lparr>a_id = uuids w 0, a_type = kind, a_severity = severity, a_equipment_id = e_id eq,
           a_equipment_name = e_name eq, a_message = msg, a_timestamp = clock w 0,
           a_action_required = action\<rparr>,
          w\<lparr>uuids := tail_of (uuids w), clock := tail_of (clock w)\<rparr>)"
  by (simp add: new_alert_def bind_sim_def uuid4_def datetime_now_def returns_def)

lemma tail_of_shift:
  assumes "f \<in> {tail_of c, tail_of (tail_of c), tail_of (tail_of (tail_of c)),
                 tail_of (tail_of (tail_of (tail_of c)))}"
  shows "\<exists>k \<le> 4. \<forall>n. f n = c (n + k)"
proof -
  from assms consider "f = tail_of c" | "f = tail_of (tail_of c)"
    | "f = tail_of (tail_of (tail_of c))" | "f = tail_of (tail_of (tail_of (tail_of c)))"
    by auto
  then show ?thesis
  proof cases
    case 1
    then have "\<forall>n. f n = c (n + 1)" by (simp add: tail_of_def)
    then show ?thesis by (intro exI [of _ 1]) simp
  next
    case 2
    then have "\<forall>n. f n = c (n + 2)" by (simp add: tail_of_def eval_nat_numeral)
    then show ?thesis by (intro exI [of _ 2]) simp
  next
    case 3
    then have "\<forall>n. f n = c (n + 3)" by (simp add: tail_of_def eval_nat_numeral)
    then show ?thesis by (intro exI [of _ 3]) simp
  next
    case 4
    then have "\<forall>n. f n = c (n + 4)" by (simp add: tail_of_def eval_nat_numeral)
    then show ?thesis by (intro exI [of _ 4]) simp
  qed
qed

lemma equipment_alerts_content:
  assumes days: "days_between (clock w1 0) (e_last_maintenance eq)
                   = days_between (clock w2 0) (e_last_maintenance eq)"
    and acc: "map alert_content acc1 = map alert_content acc2"
  shows "\<exists>r1 v1 r2 v2. equipment_alerts eq acc1 w1 = Inr (r1, v1)
           \<and> equipment_alerts eq acc2 w2 = Inr (r2, v2)
           \<and> map alert_content r1 = map alert_content r2
           \<and> clock v1 \<in> {tail_of (clock w1), tail_of (tail_of (clock w1)),
                 tail_of (tail_of (tail_of (clock w1))),
                 tail_of (tail_of (tail_of (tail_of (clock w1))))}
           \<and> clock v2 \<in> {tail_of (clock w2), tail_of (tail_of (clock w2)),
                 tail_of (tail_of (tail_of (clock w2))),
                 tail_of (tail_of (tail_of (tail_of (clock w2))))}"
  using assms
  by (cases "e_fuel_level eq")
     (simp_all add: equipment_alerts_def bind_sim_def datetime_now_def returns_def
        new_alert_returns alert_content_def Let_def)

lemma alerts_loop_content:
  assumes "\<forall>e \<in> set l. \<forall>n < 4 * length l. \<forall>m < 4 * length l.
             days_between (clock w1 n) (e_last_maintenance e)
               = days_between (clock w2 m) (e_last_maintenance e)"
    and "map alert_content acc1 = map alert_content acc2"
  shows "\<exists>r1 v1 r2 v2 k1 k2. alerts_loop l acc1 w1 = Inr (r1, v1)
           \<and> alerts_loop l acc2 w2 = Inr (r2, v2)
           \<and> map alert_content r1 = map alert_content r2
           \<and> k1 \<le> 4 * length l \<and> (\<forall>n. clock v1 n = clock w1 (n + k1))
           \<and> k2 \<le> 4 * length l \<and> (\<forall>n. clock v2 n = clock w2 (n + k2))"
  using assms
proof (induction l arbitrary: acc1 acc2 w1 w2)
  case Nil
  then show ?case by (simp add: returns_def)
next
  case (Cons e l)
  have "days_between (clock w1 0) (e_last_maintenance e)
          = days_between (clock w2 0) (e_last_maintenance e)"
    using Cons.prems(1) by simp
  from equipment_alerts_content [OF this Cons.prems(2)]
  obtain r1 v1 r2 v2 where
    s1: "equipment_alerts e acc1 w1 = Inr (r1, v1)" and
    s2: "equipment_alerts e acc2 w2 = Inr (r2, v2)" and
    c: "map alert_content r1 = map alert_content r2" and
    g1: "clock v1 \<in> {tail_of (clock w1), tail_of (tail_of (clock w1)),
                 tail_of (tail_of (tail_of (clock w1))),
                 tail_of (tail_of (tail_of (tail_of (clock w1))))}" and
    g2: "clock v2 \<in> {tail_of (clock w2), tail_of (tail_of (clock w2)),
                 tail_of (tail_of (tail_of (clock w2))),
                 tail_of (tail_of (tail_of (tail_of (clock w2))))}"
    by blast
  from tail_of_shift [OF g1] obtain j1 where
    j1: "j1 \<le> 4" "\<forall>n. clock v1 n = clock w1 (n + j1)" by blast
  from tail_of_shift [OF g2] obtain j2 where
    j2: "j2 \<le> 4" "\<forall>n. clock v2 n = clock w2 (n + j2)" by blast
  have "\<forall>e' \<in> set l. \<forall>n < 4 * length l. \<forall>m < 4 * length l.
             days_between (clock v1 n) (e_last_maintenance e')
               = days_between (clock v2 m) (e_last_maintenance e')"
  proof (intro ballI allI impI)
    fix e' n m
    assume "e' \<in> set l" "n < 4 * length l" "m < 4 * length l"
    then have "e' \<in> set (e # l)" "n + j1 < 4 * length (e # l)" "m + j2 < 4 * length (e # l)"
      using j1(1) j2(1) by simp_all
    with Cons.prems(1)
    have "days_between (clock w1 (n + j1)) (e_last_maintenance e')
            = days_between (clock w2 (m + j2)) (e_last_maintenance e')"
      by blast
    then show "days_between (clock v1 n) (e_last_maintenance e')
            = days_between (clock v2 m) (e_last_maintenance e')"
      by (simp add: j1(2) j2(2))
  qed
  from Cons.IH [OF this c]
  obtain r1' v1' r2' v2' k1 k2 where
    t1: "alerts_loop l r1 v1 = Inr (r1', v1')" and
    t2: "alerts_loop l r2 v2 = Inr (r2', v2')" and
    c': "map alert_content r1' = map alert_content r2'" and
    k1: "k1 \<le> 4 * length l" "\<forall>n. clock v1' n = clock v1 (n + k1)" and
    k2: "k2 \<le> 4 * length l" "\<forall>n. clock v2' n = clock v2 (n + k2)"
    by blast
  have a1: "alerts_loop (e # l) acc1 w1 = Inr (r1', v1')"
    by (simp add: bind_sim_def s1 t1)
  have a2: "alerts_loop (e # l) acc2 w2 = Inr (r2', v2')"
    by (simp add: bind_sim_def s2 t2)
  have b1: "k1 + j1 \<le> 4 * length (e # l)" using k1(1) j1(1) by simp
  have b2: "k2 + j2 \<le> 4 * length (e # l)" using k2(1) j2(1) by simp
  have d1: "\<forall>n. clock v1' n = clock w1 (n + (k1 + j1))"
    by (simp add: k1(2) j1(2) add.assoc)
  have d2: "\<forall>n. clock v2' n = clock w2 (n + (k2 + j2))"
    by (simp add: k2(2) j2(2) add.assoc)
  from a1 a2 c' b1 d1 b2 d2 show ?case by blast
qed

text \<open>
  C6, amended. Calling \<open>simulate_equipment_alerts\<close> twice in a row on the identical
  equipment list yields two alert lists of the same length that agree, alert by alert, in
  type, severity, equipment id, equipment name, message and required action, so that
  nothing is deduplicated. This holds whenever the whole number of days since the last
  maintenance of each item is the same at the clock readings of the two calls, of which
  there are at most four per item and call. The agreement does not extend to the id and
  the time stamp of an alert, which come from a new \<open>uuid4()\<close> and a new reading of
  the clock.
\<close>

theorem simulate_twice_same_content:
  assumes "\<forall>e \<in> set equipment_list.
             \<forall>n < 8 * length equipment_list. \<forall>m < 8 * length equipment_list.
               days_between (clock w n) (e_last_maintenance e)
                 = days_between (clock w m) (e_last_maintenance e)"
  shows "\<exists>first_alerts second_alerts w'.
           simulate_twice equipment_list w = Inr ((first_alerts, second_alerts), w')
           \<and> length first_alerts = length second_alerts
           \<and> map alert_content first_alerts = map alert_content second_alerts"
proof -
  have nil: "map alert_content [] = map alert_content []" by simp
  have h: "\<forall>e \<in> set equipment_list.
             \<forall>n < 4 * length equipment_list. \<forall>m < 4 * length equipment_list.
               days_between (clock w n) (e_last_maintenance e)
                 = days_between (clock w m) (e_last_maintenance e)"
    using assms by simp
  from alerts_loop_content [OF h nil]
  obtain r1 v1 k1 where
    s1: "alerts_loop equipment_list [] w = Inr (r1, v1)" and
    k1: "k1 \<le> 4 * length equipment_list" "\<forall>n. clock v1 n = clock w (n + k1)"
    by blast
  have h': "\<forall>e \<in> set equipment_list.
             \<forall>n < 4 * length equipment_list. \<forall>m < 4 * length equipment_list.
               days_between (clock w n) (e_last_maintenance e)
                 = days_between (clock v1 m) (e_last_maintenance e)"
  proof (intro ballI allI impI)
    fix e n m
    assume "e \<in> set equipment_list" "n < 4 * length equipment_list"
      "m < 4 * length equipment_list"
    then have "e \<in> set equipment_list" "n < 8 * length equipment_list"
      "m + k1 < 8 * length equipment_list"
      using k1(1) by simp_all
    with assms
    have "days_between (clock w n) (e_last_maintenance e)
            = days_between (clock w (m + k1)) (e_last_maintenance e)"
      by blast
    then show "days_between (clock w n) (e_last_maintenance e)
            = days_between (clock v1 m) (e_last_maintenance e)"
      by (simp add: k1(2))
  qed
  from alerts_loop_content [OF h' nil]
  obtain r1' v1' r2 v2 where
    s1': "alerts_loop equipment_list [] w = Inr (r1', v1')" and
    s2: "alerts_loop equipment_list [] v1 = Inr (r2, v2)" and
    c: "map alert_content r1' = map alert_content r2"
    by blast
  from s1 s1' have "r1' = r1" by simp
  with c have c': "map alert_content r1 = map alert_content r2" by simp
  then have l: "length r1 = length r2" by (rule map_eq_imp_length_eq)
  have "simulate_twice equipment_list w = Inr ((r1, r2), v2)"
    by (simp add: simulate_twice_def simulate_equipment_alerts_def bind_sim_def returns_def s1 s2)
  with l c' show ?thesis by blast
qed


lemma tractor_overdue_days:
  assumes "n < 8"
  shows "days_between (clock world_ticking n) (e_last_maintenance tractor_overdue) = 95"
proof -
  have "clock world_ticking n - e_last_maintenance tractor_overdue
          = int n + 95 * usec_per_day"
    by (simp add: world_ticking_def ticking_def tractor_overdue_def usec_per_day_def)
  moreover have "int n div usec_per_day = 0"
    using assms by (simp add: usec_per_day_def)
  ultimately show ?thesis
    by (simp add: days_between_def usec_per_day_def)
qed

lemmas ticking_eval = simulate_twice_def simulate_equipment_alerts_def equipment_alerts_def
  tractor_overdue_def world_ticking_def ticking_def bind_sim_def datetime_now_def returns_def
  value_of_def const_stream_def days_between_def new_alert_def uuid4_def usec_per_day_def
  numbered_ids_def tail_of_def

theorem simulate_twice_same_content_witness:
  "map_option (map alert_content) (map_option fst
      (value_of (simulate_twice [tractor_overdue] world_ticking)))
   = map_option (map alert_content) (map_option snd
      (value_of (simulate_twice [tractor_overdue] world_ticking)))
   \<and> map_option length (map_option fst
      (value_of (simulate_twice [tractor_overdue] world_ticking))) = Some 1"
proof -
  have h: "\<forall>e \<in> set [tractor_overdue].
             \<forall>n < 8 * length [tractor_overdue]. \<forall>m < 8 * length [tractor_overdue].
               days_between (clock world_ticking n) (e_last_maintenance e)
                 = days_between (clock world_ticking m) (e_last_maintenance e)"
    by (simp add: tractor_overdue_days)
  from simulate_twice_same_content [OF h]
  obtain a1 a2 w' where
    r: "simulate_twice [tractor_overdue] world_ticking = Inr ((a1, a2), w')" and
    c: "map alert_content a1 = map alert_content a2"
    by blast
  have v: "value_of (simulate_twice [tractor_overdue] world_ticking) = Some (a1, a2)"
    by (simp add: value_of_def r)
  have b: "map_option length (map_option fst
      (value_of (simulate_twice [tractor_overdue] world_ticking))) = Some 1"
    by (simp add: ticking_eval)
  have a: "map_option (map alert_content) (map_option fst
      (value_of (simulate_twice [tractor_overdue] world_ticking)))
   = map_option (map alert_content) (map_option snd
      (value_of (simulate_twice [tractor_overdue] world_ticking)))"
    by (simp add: v c)
  from a b show ?thesis by (rule conjI)
qed

text \<open>
  Under a running clock both the ids and the time stamps of the two calls differ.
\<close>

lemma simulate_twice_fresh_fields:
  "map_option (map a_id) (map_option fst
      (value_of (simulate_twice [tractor_overdue] world_ticking))) = Some [''uuid-'']
   \<and> map_option (map a_id) (map_option snd
      (value_of (simulate_twice [tractor_overdue] world_ticking))) = Some [''uuid-i'']
   \<and> map_option (map a_timestamp) (map_option fst
      (value_of (simulate_twice [tractor_overdue] world_ticking))) = Some [63852793200000001]
   \<and> map_option (map a_timestamp) (map_option snd
      (value_of (simulate_twice [tractor_overdue] world_ticking))) = Some [63852793200000003]"
  by (simp add: ticking_eval)

section \<open>Properties of the crop records\<close>

text \<open>
  C8, as stated, fails for \<open>update_crop_progress\<close>: a crop whose well-formed planting
  date lies two days ahead of the clock, updated with the growth rate 1.0, gets a
  negative growth progress.
\<close>

theorem update_crop_progress_counterexample:
  "(0.1::real) \<le> 1 \<and> (1::real) \<le> 2.0
   \<and> map_option c_growth_progress
        (value_of (update_crop_progress rice_planted_ahead 1 world_may_night)) = Some (- (5 / 3))"
  by (simp add: update_crop_progress_def rice_planted_ahead_def world_may_night_def world_eval
      days_between_def usec_per_day_def get_stage_thresholds_def get_cycle_days_def
      get_default_def subscript_def bind_err_def stage_thresholds_def cycles_def truediv_def
      Let_def)

lemma round_half_even_ge: "of_int a \<le> x \<Longrightarrow> a \<le> round_half_even x"
  by (simp add: round_half_even_def le_floor_iff add_increasing2)

lemma round_half_even_le:
  assumes "x \<le> of_int b"
  shows "round_half_even x \<le> b"
proof -
  have f: "\<lfloor>x\<rfloor> \<le> b" using assms by (simp add: floor_le_iff)
  show ?thesis
  proof (cases "x - of_int \<lfloor>x\<rfloor> < 1 / 2")
    case True
    then show ?thesis using f by (simp add: round_half_even_def)
  next
    case False
    then have "of_int \<lfloor>x\<rfloor> < x" by linarith
    with assms have "of_int \<lfloor>x\<rfloor> < (of_int b :: real)" by linarith
    then have "\<lfloor>x\<rfloor> < b" by simp
    then show ?thesis using f by (simp add: round_half_even_def)
  qed
qed

lemma py_round_percent:
  assumes "0 \<le> x" and "x \<le> 100"
  shows "0 \<le> py_round x 1 \<and> py_round x 1 \<le> 100"
proof -
  have "(of_int 0 :: real) \<le> x * 10" using assms by simp
  then have a: "0 \<le> round_half_even (x * 10)" by (rule round_half_even_ge)
  have "x * 10 \<le> of_int 1000" using assms by simp
  then have b: "round_half_even (x * 10) \<le> 1000" by (rule round_half_even_le)
  from a b show ?thesis by (simp add: py_round_def)
qed

lemma bind_sim_InrE:
  assumes "bind_sim m f w = Inr (y, v)"
  obtains x u where "m w = Inr (x, u)" and "f x u = Inr (y, v)"
  using assms by (auto simp: bind_sim_def split: sum.splits)

lemma random_randint_range:
  assumes "random_randint a b w = Inr (k, w')"
  shows "a \<le> k \<and> k \<le> b"
proof (cases "b < a")
  case True
  with assms show ?thesis by (simp add: random_randint_def raises_def)
next
  case False
  then have "0 < nat (b - a + 1)" by simp
  then have "randbits w 0 mod nat (b - a + 1) < nat (b - a + 1)" by (rule mod_less_divisor)
  then have "int (randbits w 0 mod nat (b - a + 1)) \<le> b - a" using False by linarith
  with assms False show ?thesis
    by (auto simp: random_randint_def bind_sim_def randbelow_def returns_def)
qed

lemma crop_data_cycle:
  assumes "lift_err (subscript crop_data crop_type) w = Inr (info, w')"
  shows "growth_cycle_days info \<in> {120, 150, 300, 365}"
proof -
  from assms have "map_of crop_data crop_type = Some info"
    by (simp add: lift_err_def subscript_def split: option.splits)
  then have "(crop_type, info) \<in> set crop_data" by (rule map_of_SomeD)
  then show ?thesis by (auto simp: crop_data_def)
qed

lemma elapsed_percent_bounds:
  assumes "cycle \<in> {120, 150, 300, 365}"
    and "10 \<le> days \<and> days \<le> cycle - 30"
    and "lift_err (truediv (of_int days) (of_int cycle)) u = Inr (elapsed, u')"
  shows "0 \<le> py_round (elapsed * 100) 1 \<and> py_round (elapsed * 100) 1 \<le> 100"
proof -
  have pos: "0 < cycle" and d: "0 \<le> days" "days \<le> cycle"
    using assms(1,2) by auto
  from assms(3) pos have e: "elapsed = of_int days / of_int cycle"
    by (simp add: lift_err_def truediv_def)
  have "0 \<le> elapsed" using pos d by (simp add: e)
  moreover have "elapsed \<le> 1" using pos d by (simp add: e)
  ultimately have "0 \<le> elapsed * 100" and "elapsed * 100 \<le> 100" by simp_all
  then show ?thesis by (rule py_round_percent)
qed

lemma generate_crop_data_progress:
  assumes "generate_crop_data crop_type plot_area w = Inr (c, w')"
  shows "0 \<le> c_growth_progress c \<and> c_growth_progress c \<le> 100"
  using assms unfolding generate_crop_data_def Let_def
  apply (elim bind_sim_InrE)
  subgoal premises p
    using elapsed_percent_bounds [OF crop_data_cycle [OF p(1)] random_randint_range [OF p(3)] p(7)]
      p(21)
    by (auto simp: returns_def)
  done

lemma get_cycle_days_pos: "0 < get_cycle_days crop_type"
  by (simp add: get_cycle_days_def get_default_def cycles_def)

lemma get_stage_thresholds_ok: "\<exists>t. get_stage_thresholds crop_type = Inr t"
  by (simp add: get_stage_thresholds_def subscript_def bind_err_def stage_thresholds_def)

lemma update_crop_progress_bounds:
  assumes "0.1 \<le> growth_rate" and "growth_rate \<le> 2.0"
    and "c_planted_date crop_rec \<le> clock w 0"
  shows "\<exists>c w'. update_crop_progress crop_rec growth_rate w = Inr (c, w')
           \<and> 0 \<le> c_growth_progress c \<and> c_growth_progress c \<le> 100"
proof -
  obtain t where t: "get_stage_thresholds (c_type crop_rec) = Inr t"
    using get_stage_thresholds_ok by blast
  have g: "growth_rate \<noteq> 0" "0 \<le> growth_rate" using assms(1) by auto
  have c: "0 < get_cycle_days (c_type crop_rec)" by (rule get_cycle_days_pos)
  have "0 \<le> clock w 0 - c_planted_date crop_rec" using assms(3) by simp
  then have d: "0 \<le> days_between (clock w 0) (c_planted_date crop_rec)"
    by (simp add: days_between_def usec_per_day_def pos_imp_zdiv_nonneg_iff)
  have p: "0 \<le> of_int (days_between (clock w 0) (c_planted_date crop_rec)) * growth_rate
             / of_int (get_cycle_days (c_type crop_rec)) * 100"
    using d g c by simp
  show ?thesis
    using g c p
    by (simp add: update_crop_progress_def bind_sim_def datetime_now_def lift_err_def t
        truediv_def returns_def Let_def)
qed


text \<open>
  C8, amended. Every crop record produced by \<open>generate_crop_data\<close> has a growth
  progress between 0 and 100; and for every crop record whose planting date is not later
  than the clock and every growth rate between 0.1 and 2.0, \<open>update_crop_progress\<close>
  returns a record whose growth progress is between 0 and 100.
\<close>

theorem crop_growth_progress_bounds:
  "(generate_crop_data crop_type plot_area w = Inr (c, w')
      \<longrightarrow> 0 \<le> c_growth_progress c \<and> c_growth_progress c \<le> 100)
   \<and> (0.1 \<le> growth_rate \<and> growth_rate \<le> 2.0 \<and> c_planted_date crop_rec \<le> clock v 0
      \<longrightarrow> (\<exists>c2 v'. update_crop_progress crop_rec growth_rate v = Inr (c2, v')
             \<and> 0 \<le> c_growth_progress c2 \<and> c_growth_progress c2 \<le> 100))"
  using generate_crop_data_progress [of crop_type plot_area w c w']
    update_crop_progress_bounds [of growth_rate crop_rec v]
  by blast

lemma generate_crop_data_rice_returns:
  "\<exists>c w'. generate_crop_data ''rice'' 2 world_may_night = Inr (c, w')"
  by (simp add: generate_crop_data_def world_may_night_def world_eval subscript_def
      crop_data_def random_choice_def random_randint_def randbelow_def uuid4_def truediv_def
      py_index_def py_int_def py_round_def round_half_even_def Let_def)

theorem crop_growth_progress_bounds_witness:
  "(\<exists>c w'. generate_crop_data ''rice'' 2 world_may_night = Inr (c, w')
       \<and> 0 \<le> c_growth_progress c \<and> c_growth_progress c \<le> 100)
   \<and> (0.1::real) \<le> 1 \<and> (1::real) \<le> 2.0
   \<and> c_planted_date rice_planted_before \<le> clock world_may_night 0
   \<and> (\<exists>c2 v'. update_crop_progress rice_planted_before 1 world_may_night = Inr (c2, v')
       \<and> 0 \<le> c_growth_progress c2 \<and> c_growth_progress c2 \<le> 100)"
proof -
  obtain c w' where r: "generate_crop_data ''rice'' 2 world_may_night = Inr (c, w')"
    using generate_crop_data_rice_returns by blast
  have h: "(0.1::real) \<le> 1 \<and> (1::real) \<le> 2.0
       \<and> c_planted_date rice_planted_before \<le> clock world_may_night 0"
    by (simp add: rice_planted_before_def rice_planted_ahead_def world_may_night_def
        const_stream_def)
  from crop_growth_progress_bounds
         [of "''rice''" 2 world_may_night c w' 1 rice_planted_before world_may_night] r h
  show ?thesis by blast
qed

section \<open>Properties of generate\_weather\_forecast\<close>

lemma toordinal_mono: "a \<le> b \<Longrightarrow> toordinal a \<le> toordinal b"
  by (simp add: toordinal_def usec_per_day_def zdiv_mono1)

lemma toordinal_plus_days: "toordinal (t + timedelta_days d) = toordinal t + d"
  by (simp add: toordinal_def timedelta_days_def usec_per_day_def)

lemma timedelta_hours_days: "timedelta_hours (day * 24) = timedelta_days day"
  by (simp add: timedelta_hours_def timedelta_days_def usec_per_hour_def usec_per_day_def)

lemma make_timedelta_days:
  "make_timedelta (timedelta_days day) =
     (if - 999999999 \<le> day \<and> day \<le> 999999999 then Inr (timedelta_days day)
      else Inl OverflowError)"
  by (simp add: make_timedelta_def timedelta_days_def usec_per_day_def)

text \<open>The four range checks that one pass of the forecast loop makes.\<close>

lemma forecast_entry_facts:
  assumes "- 999999999 \<le> day" and "day \<le> 999999999"
    and "0 \<le> clock w 0 + timedelta_days day"
    and "clock w 0 + timedelta_days day < datetime_limit"
    and "0 \<le> clock w 2 + timedelta_days day"
    and "clock w 2 + timedelta_days day < datetime_limit"
  shows "\<exists>e w'. forecast_entry loc day w = Inr (e, w')
     \<and> f_date e = toordinal (clock w 0) + day
     \<and> clock w' = tail_of (tail_of (tail_of (clock w)))"
proof -
  from generate_weather_data_facts [of loc "day * 24" "w\<lparr>clock := tail_of (clock w)\<rparr>"]
  obtain ws w2 where
    g: "generate_weather_data loc (day * 24) (w\<lparr>clock := tail_of (clock w)\<rparr>) = Inr (ws, w2)" and
    c: "clock w2 = tail_of (tail_of (tail_of (clock w)))"
    by auto
  have t: "tail_of (clock w) (Suc 0) = clock w 2"
    by (simp add: tail_of_def eval_nat_numeral)
  have g': "generate_weather_data_in_range loc (day * 24) (w\<lparr>clock := tail_of (clock w)\<rparr>)
              = Inr (ws, w2)"
    using assms
    by (simp add: generate_weather_data_in_range_def timedelta_hours_days make_timedelta_days
        bind_err_def datetime_add_def t g)
  show ?thesis
    using assms
    by (simp add: forecast_entry_def bind_sim_def datetime_now_def g' c returns_def
        make_timedelta_days bind_err_def datetime_add_def lift_err_def
        random_uniform_def random_random_def random_randint_def randbelow_def
        random_choice_def toordinal_plus_days Let_def)
qed

lemma forecast_entry_overflow:
  assumes "datetime_limit \<le> clock w 0 + timedelta_days day"
  shows "forecast_entry loc day w = Inl OverflowError"
  using assms
  by (simp add: forecast_entry_def bind_sim_def datetime_now_def make_timedelta_days
      bind_err_def datetime_add_def lift_err_def)

lemma forecast_entry_cases:
  "forecast_entry loc day w = Inl OverflowError
   \<or> (\<exists>e w'. forecast_entry loc day w = Inr (e, w')
         \<and> clock w' = tail_of (tail_of (tail_of (clock w))))"
proof (cases "- 999999999 \<le> day \<and> day \<le> 999999999
     \<and> 0 \<le> clock w 0 + timedelta_days day \<and> clock w 0 + timedelta_days day < datetime_limit")
  case False
  then show ?thesis
    by (auto simp: forecast_entry_def bind_sim_def datetime_now_def make_timedelta_days
        bind_err_def datetime_add_def lift_err_def)
next
  case outer: True
  show ?thesis
  proof (cases "0 \<le> clock w 2 + timedelta_days day
      \<and> clock w 2 + timedelta_days day < datetime_limit")
    case True
    with outer forecast_entry_facts [of day w loc] show ?thesis by blast
  next
    case False
    have t: "tail_of (clock w) (Suc 0) = clock w 2"
      by (simp add: tail_of_def eval_nat_numeral)
    have "generate_weather_data_in_range loc (day * 24) (w\<lparr>clock := tail_of (clock w)\<rparr>)
            = Inl OverflowError"
      using False outer
      by (auto simp: generate_weather_data_in_range_def timedelta_hours_days
          make_timedelta_days bind_err_def datetime_add_def t)
    with outer show ?thesis
      by (simp add: forecast_entry_def bind_sim_def datetime_now_def make_timedelta_days
          bind_err_def datetime_add_def lift_err_def)
  qed
qed

lemma forecast_loop_overflow:
  assumes "\<forall>k. t0 \<le> clock w k" and "0 < n"
    and "datetime_limit \<le> t0 + timedelta_days (day + int n - 1)"
  shows "forecast_loop n day loc acc w = Inl OverflowError"
  using assms
proof (induction n arbitrary: day acc w)
  case 0
  then show ?case by simp
next
  case (Suc m)
  from forecast_entry_cases [of loc day w]
  show ?case
  proof
    assume "forecast_entry loc day w = Inl OverflowError"
    then show ?thesis by (simp add: bind_sim_def)
  next
    assume "\<exists>e w'. forecast_entry loc day w = Inr (e, w')
         \<and> clock w' = tail_of (tail_of (tail_of (clock w)))"
    then obtain e w1 where
      e: "forecast_entry loc day w = Inr (e, w1)" and
      c: "clock w1 = tail_of (tail_of (tail_of (clock w)))"
      by blast
    show ?thesis
    proof (cases "m = 0")
      case True
      have "t0 \<le> clock w 0" using Suc.prems(1) by blast
      with Suc.prems(3) True have "datetime_limit \<le> clock w 0 + timedelta_days day"
        by simp
      then have "forecast_entry loc day w = Inl OverflowError"
        by (rule forecast_entry_overflow)
      then show ?thesis by (simp add: bind_sim_def)
    next
      case False
      then have m: "0 < m" by simp
      have b: "\<forall>k. t0 \<le> clock w1 k" using Suc.prems(1) by (simp add: c tail_of_def)
      have l: "datetime_limit \<le> t0 + timedelta_days (day + 1 + int m - 1)"
        using Suc.prems(3) by (simp add: add.commute add.left_commute)
      from Suc.IH [OF b m l]
      have "forecast_loop m (day + 1) loc (acc @ [e]) w1 = Inl OverflowError" .
      then show ?thesis by (simp add: bind_sim_def e)
    qed
  qed
qed


lemma timedelta_days_mono: "a \<le> b \<Longrightarrow> timedelta_days a \<le> timedelta_days b"
  by (simp add: timedelta_days_def usec_per_day_def)

lemma day_in_range:
  assumes "0 \<le> t" and "t + timedelta_days d < datetime_limit"
  shows "d \<le> 999999999"
  using assms by (simp add: timedelta_days_def datetime_limit_def usec_per_day_def)

lemma forecast_loop_dates:
  assumes "\<forall>k < 3 * n. 0 \<le> clock w k
           \<and> clock w k + timedelta_days (day + int n - 1) < datetime_limit"
    and "0 \<le> day"
  shows "\<exists>es w'. forecast_loop n day loc acc w = Inr (acc @ es, w')
           \<and> length es = n
           \<and> (\<forall>i < n. f_date (es ! i) = toordinal (clock w (3 * i)) + day + int i)"
  using assms
proof (induction n arbitrary: day acc w)
  case 0
  then show ?case by (simp add: returns_def)
next
  case (Suc n)
  have up: "timedelta_days day \<le> timedelta_days (day + int (Suc n) - 1)"
    by (rule timedelta_days_mono) simp
  have r0: "0 \<le> clock w 0" "clock w 0 + timedelta_days (day + int (Suc n) - 1) < datetime_limit"
    using Suc.prems(1) by simp_all
  have r2: "0 \<le> clock w 2" "clock w 2 + timedelta_days (day + int (Suc n) - 1) < datetime_limit"
    using Suc.prems(1) by simp_all
  have nn: "0 \<le> timedelta_days day"
    using Suc.prems(2) by (simp add: timedelta_days_def usec_per_day_def)
  have a0: "0 \<le> clock w 0 + timedelta_days day"
    "clock w 0 + timedelta_days day < datetime_limit"
    using r0 up nn by linarith+
  have a2: "0 \<le> clock w 2 + timedelta_days day"
    "clock w 2 + timedelta_days day < datetime_limit"
    using r2 up nn by linarith+
  have d1: "- 999999999 \<le> day" using Suc.prems(2) by simp
  have d2: "day \<le> 999999999" using r0(1) a0(2) by (rule day_in_range)
  from forecast_entry_facts [OF d1 d2 a0 a2, of loc]
  obtain e w1 where
    e: "forecast_entry loc day w = Inr (e, w1)" and
    d: "f_date e = toordinal (clock w 0) + day" and
    c: "clock w1 = tail_of (tail_of (tail_of (clock w)))"
    by blast
  have c': "clock w1 k = clock w (k + 3)" for k
    by (simp add: c tail_of_def eval_nat_numeral)
  have g1: "\<forall>k < 3 * n. 0 \<le> clock w1 k
           \<and> clock w1 k + timedelta_days (day + 1 + int n - 1) < datetime_limit"
  proof (intro allI impI)
    fix k assume "k < 3 * n"
    then have "k + 3 < 3 * Suc n" by simp
    with Suc.prems(1) have "0 \<le> clock w (k + 3)
           \<and> clock w (k + 3) + timedelta_days (day + int (Suc n) - 1) < datetime_limit"
      by blast
    then show "0 \<le> clock w1 k
           \<and> clock w1 k + timedelta_days (day + 1 + int n - 1) < datetime_limit"
      by (simp add: c' add.commute add.left_commute)
  qed
  have p1: "0 \<le> day + 1" using Suc.prems(2) by simp
  from Suc.IH [OF g1 p1, of "acc @ [e]"]
  obtain es w' where
    r: "forecast_loop n (day + 1) loc (acc @ [e]) w1 = Inr ((acc @ [e]) @ es, w')" and
    len: "length es = n" and
    nth: "\<forall>i < n. f_date (es ! i) = toordinal (clock w1 (3 * i)) + (day + 1) + int i"
    by blast
  have r': "forecast_loop (Suc n) day loc acc w = Inr (acc @ (e # es), w')"
    by (simp add: bind_sim_def e r)
  have len': "length (e # es) = Suc n" using len by simp
  have nth': "\<forall>i < Suc n. f_date ((e # es) ! i) = toordinal (clock w (3 * i)) + day + int i"
  proof (intro allI impI)
    fix i assume i: "i < Suc n"
    show "f_date ((e # es) ! i) = toordinal (clock w (3 * i)) + day + int i"
    proof (cases i)
      case 0
      then show ?thesis by (simp add: d)
    next
      case (Suc j)
      with i have "j < n" by simp
      with nth have "f_date (es ! j) = toordinal (clock w1 (3 * j)) + (day + 1) + int j"
        by blast
      moreover have "clock w1 (3 * j) = clock w (3 * Suc j)"
        by (simp add: c' add.commute)
      ultimately show ?thesis using Suc by simp
    qed
  qed
  from r' len' nth' show ?case by blast
qed

lemma clock_steps_mono:
  assumes "\<forall>k. Suc k < N \<longrightarrow> (c k :: int) \<le> c (Suc k)"
  shows "a \<le> b \<Longrightarrow> b < N \<Longrightarrow> c a \<le> c b"
proof (induction b)
  case 0
  then show ?case by simp
next
  case (Suc b)
  show ?case
  proof (cases "a = Suc b")
    case True
    then show ?thesis by simp
  next
    case False
    with Suc.prems have "a \<le> b" "b < N" by simp_all
    then have "c a \<le> c b" by (rule Suc.IH)
    moreover have "c b \<le> c (Suc b)" using assms Suc.prems(2) by blast
    ultimately show ?thesis by (rule order_trans)
  qed
qed

lemma generate_weather_forecast_nth:
  assumes "1 \<le> days"
    and "\<forall>k < 3 * nat days. 0 \<le> clock w k
           \<and> clock w k + timedelta_days days < datetime_limit"
  shows "\<exists>forecast w'. generate_weather_forecast loc days w = Inr (forecast, w')
           \<and> length forecast = nat days
           \<and> (\<forall>i < nat days.
                 f_date (forecast ! i) = toordinal (clock w (3 * i)) + 1 + int i)"
proof -
  have e: "1 + int (nat days) - 1 = days" using assms(1) by simp
  have g: "\<forall>k < 3 * nat days. 0 \<le> clock w k
           \<and> clock w k + timedelta_days (1 + int (nat days) - 1) < datetime_limit"
    using assms(2) by (simp only: e)
  have p: "(0::int) \<le> 1" by simp
  from forecast_loop_dates [OF g p, of loc "[]"]
  show ?thesis by (simp add: generate_weather_forecast_def)
qed

text \<open>
  C9, amended. For every location and every \<open>days\<close> of at least 1 such that each
  clock reading of the call is a valid \<open>datetime\<close> and remains one when \<open>days\<close>
  days are added, and with a clock that does not run backwards during the call,
  \<open>generate_weather_forecast\<close> returns exactly \<open>days\<close> entries whose dates are
  strictly increasing. The entry of loop pass \<open>i\<close> is dated \<open>i\<close> days after the day
  of the clock reading taken at the start of that pass, so the first entry is dated the
  day after the first reading; and when all readings of the call fall on one day, the
  entries are dated on the consecutive days that follow it.
\<close>

theorem generate_weather_forecast_dates:
  assumes "1 \<le> days"
    and "\<forall>k < 3 * nat days. 0 \<le> clock w k
           \<and> clock w k + timedelta_days days < datetime_limit"
    and "\<forall>k. Suc k < 3 * nat days \<longrightarrow> clock w k \<le> clock w (Suc k)"
  shows "\<exists>forecast w'. generate_weather_forecast loc days w = Inr (forecast, w')
           \<and> length forecast = nat days
           \<and> sorted_wrt (<) (map f_date forecast)
           \<and> f_date (hd forecast) = toordinal (clock w 0) + 1
           \<and> (\<forall>i < nat days.
                 f_date (forecast ! i) = toordinal (clock w (3 * i)) + 1 + int i)
           \<and> ((\<forall>k < 3 * nat days. toordinal (clock w k) = toordinal (clock w 0))
                \<longrightarrow> (\<forall>i < nat days.
                       f_date (forecast ! i) = toordinal (clock w 0) + 1 + int i))"
proof -
  have n: "0 < nat days" using assms(1) by simp
  from generate_weather_forecast_nth [OF assms(1,2), of loc]
  obtain es w' where
    r': "generate_weather_forecast loc days w = Inr (es, w')" and
    len: "length es = nat days" and
    nth: "\<forall>i < nat days. f_date (es ! i) = toordinal (clock w (3 * i)) + 1 + int i"
    by (elim exE conjE) (rule that, assumption+)
  have ne: "es \<noteq> []" using len n by auto
  have "f_date (hd es) = f_date (es ! 0)" using ne by (simp add: hd_conv_nth)
  with nth n have first: "f_date (hd es) = toordinal (clock w 0) + 1" by simp
  have less: "f_date (es ! i) < f_date (es ! j)" if "i < j" and "j < nat days" for i j
  proof -
    from that have "3 * i \<le> 3 * j" "3 * j < 3 * nat days" by simp_all
    with assms(3) have "clock w (3 * i) \<le> clock w (3 * j)" by (rule clock_steps_mono)
    then have "toordinal (clock w (3 * i)) \<le> toordinal (clock w (3 * j))"
      by (rule toordinal_mono)
    moreover from that nth
    have "f_date (es ! i) = toordinal (clock w (3 * i)) + 1 + int i"
      and "f_date (es ! j) = toordinal (clock w (3 * j)) + 1 + int j"
      by simp_all
    ultimately show ?thesis using that(1) by simp
  qed
  have srt: "sorted_wrt (<) (map f_date es)"
    unfolding sorted_wrt_map
    by (rule sorted_wrt_iff_nth_less [THEN iffD2]) (simp add: len less)
  have same: "(\<forall>k < 3 * nat days. toordinal (clock w k) = toordinal (clock w 0))
                \<longrightarrow> (\<forall>i < nat days. f_date (es ! i) = toordinal (clock w 0) + 1 + int i)"
  proof (intro impI allI)
    fix i
    assume s: "\<forall>k < 3 * nat days. toordinal (clock w k) = toordinal (clock w 0)"
      and i: "i < nat days"
    from i have "3 * i < 3 * nat days" by simp
    with s have "toordinal (clock w (3 * i)) = toordinal (clock w 0)" by blast
    moreover from nth i have "f_date (es ! i) = toordinal (clock w (3 * i)) + 1 + int i"
      by blast
    ultimately show "f_date (es ! i) = toordinal (clock w 0) + 1 + int i" by simp
  qed
  from r' len srt first nth same show ?thesis by blast
qed


lemma map_of_three:
  assumes "length xs = 3"
  shows "map f xs = [f (xs ! 0), f (xs ! 1), f (xs ! 2)]"
  using assms by (auto simp: numeral_3_eq_3 length_Suc_conv)

lemma map_of_two:
  assumes "length xs = 2"
  shows "map f xs = [f (xs ! 0), f (xs ! 1)]"
  using assms by (auto simp: numeral_2_eq_2 length_Suc_conv)

lemmas clock_eval = toordinal_def usec_per_day_def timedelta_days_def datetime_limit_def
  ticking_def set_back_def const_stream_def

text \<open>
  Three concrete runs: a call that spans midnight skips a day; a clock that is set back
  during the call repeats a date; and a forecast of four million days, asked for in 2024,
  leaves the range of \<open>datetime\<close>.
\<close>

lemma forecast_across_midnight:
  "map_option (map f_date) (value_of (generate_weather_forecast kuala_lumpur 3 world_midnight))
     = Some [739038, 739040, 739041]"
proof -
  have d: "(1::int) \<le> 3" by simp
  have g: "\<forall>k < 3 * nat 3. 0 \<le> clock world_midnight k
           \<and> clock world_midnight k + timedelta_days 3 < datetime_limit"
    by (simp add: world_midnight_def clock_eval)
  from generate_weather_forecast_nth [OF d g, of kuala_lumpur]
  obtain fc w' where
    r: "generate_weather_forecast kuala_lumpur 3 world_midnight = Inr (fc, w')" and
    len: "length fc = 3" and
    nth: "\<forall>i < 3. f_date (fc ! i) = toordinal (clock world_midnight (3 * i)) + 1 + int i"
    by auto
  from nth have "f_date (fc ! 0) = 739038" "f_date (fc ! 1) = 739040" "f_date (fc ! 2) = 739041"
    by (simp_all add: world_midnight_def clock_eval)
  with map_of_three [OF len, of f_date] have "map f_date fc = [739038, 739040, 739041]"
    by simp
  with r show ?thesis by (simp add: value_of_def)
qed

lemma forecast_clock_set_back:
  "map_option (map f_date)
     (value_of (generate_weather_forecast kuala_lumpur 2 world_clock_set_back))
     = Some [739039, 739039]"
proof -
  have d: "(1::int) \<le> 2" by simp
  have g: "\<forall>k < 3 * nat 2. 0 \<le> clock world_clock_set_back k
           \<and> clock world_clock_set_back k + timedelta_days 2 < datetime_limit"
    by (simp add: world_clock_set_back_def clock_eval)
  from generate_weather_forecast_nth [OF d g, of kuala_lumpur]
  obtain fc w' where
    r: "generate_weather_forecast kuala_lumpur 2 world_clock_set_back = Inr (fc, w')" and
    len: "length fc = 2" and
    nth: "\<forall>i < 2. f_date (fc ! i) = toordinal (clock world_clock_set_back (3 * i)) + 1 + int i"
    by auto
  from nth have "f_date (fc ! 0) = 739039" "f_date (fc ! 1) = 739039"
    by (simp_all add: world_clock_set_back_def clock_eval)
  with map_of_two [OF len, of f_date] have "map f_date fc = [739039, 739039]"
    by simp
  with r show ?thesis by (simp add: value_of_def)
qed

lemma forecast_past_last_year:
  "generate_weather_forecast kuala_lumpur 4000000 world_may_night = Inl OverflowError"
proof -
  have a: "\<forall>k. 63852793200000000 \<le> clock world_may_night k"
    by (simp add: world_may_night_def const_stream_def)
  have b: "0 < nat 4000000" by simp
  have c: "datetime_limit
             \<le> 63852793200000000 + timedelta_days (1 + int (nat 4000000) - 1)"
    by (simp add: datetime_limit_def timedelta_days_def usec_per_day_def)
  from forecast_loop_overflow [OF a b c]
  show ?thesis by (simp add: generate_weather_forecast_def)
qed

text \<open>
  C9, as stated, fails: with the first clock reading in the last microsecond of
  2024-05-31 the three entries are dated June 1, June 3 and June 4, not day by day; and
  for \<open>days = 4000000\<close> the call raises \<open>OverflowError\<close> instead of returning
  entries.
\<close>

theorem generate_weather_forecast_counterexample:
  "map_option (map f_date) (value_of (generate_weather_forecast kuala_lumpur 3 world_midnight))
     = Some [739038, 739040, 739041]
   \<and> generate_weather_forecast kuala_lumpur 4000000 world_may_night = Inl OverflowError"
  using forecast_across_midnight forecast_past_last_year by (rule conjI)

theorem generate_weather_forecast_dates_witness:
  "(1::int) \<le> 7
   \<and> (\<exists>forecast w'. generate_weather_forecast kuala_lumpur 7 world_ticking = Inr (forecast, w')
         \<and> length forecast = 7
         \<and> sorted_wrt (<) (map f_date forecast)
         \<and> f_date (hd forecast) = 739038
         \<and> f_date (forecast ! 6) = 739044)"
proof -
  have h1: "(1::int) \<le> 7" by simp
  have h2: "\<forall>k < 3 * nat 7. 0 \<le> clock world_ticking k
           \<and> clock world_ticking k + timedelta_days 7 < datetime_limit"
    by (simp add: world_ticking_def clock_eval)
  have h3: "\<forall>k. Suc k < 3 * nat 7 \<longrightarrow> clock world_ticking k \<le> clock world_ticking (Suc k)"
    by (simp add: world_ticking_def clock_eval)
  have day: "toordinal (clock world_ticking k) = 739037" if "k < 3 * nat 7" for k
  proof -
    have "clock world_ticking k = (82800000000 + int k) + 739036 * usec_per_day"
      by (simp add: world_ticking_def clock_eval)
    moreover have "(82800000000 + int k) div usec_per_day = 0"
      using that by (simp add: usec_per_day_def)
    ultimately show ?thesis by (simp add: toordinal_def usec_per_day_def)
  qed
  have same: "\<forall>k < 3 * nat 7. toordinal (clock world_ticking k)
                 = toordinal (clock world_ticking 0)"
    by (simp add: day)
  from generate_weather_forecast_dates [OF h1 h2 h3, of kuala_lumpur]
  obtain forecast w' where
    r: "generate_weather_forecast kuala_lumpur 7 world_ticking = Inr (forecast, w')" and
    len: "length forecast = nat 7" and
    srt: "sorted_wrt (<) (map f_date forecast)" and
    first: "f_date (hd forecast) = toordinal (clock world_ticking 0) + 1" and
    nth: "(\<forall>k < 3 * nat 7. toordinal (clock world_ticking k)
                 = toordinal (clock world_ticking 0))
            \<longrightarrow> (\<forall>i < nat 7. f_date (forecast ! i)
                     = toordinal (clock world_ticking 0) + 1 + int i)"
    by (elim exE conjE) (rule that, assumption+)
  from nth same have "\<forall>i < nat 7. f_date (forecast ! i)
                     = toordinal (clock world_ticking 0) + 1 + int i"
    by (rule mp)
  then have "f_date (forecast ! 6) = toordinal (clock world_ticking 0) + 1 + int 6"
    by simp
  then have last: "f_date (forecast ! 6) = 739044" by (simp add: day)
  from first have first': "f_date (hd forecast) = 739038" by (simp add: day)
  from len have len': "length forecast = 7" by simp
  from r len' srt first' last have
    "\<exists>forecast w'. generate_weather_forecast kuala_lumpur 7 world_ticking = Inr (forecast, w')
         \<and> length forecast = 7
         \<and> sorted_wrt (<) (map f_date forecast)
         \<and> f_date (hd forecast) = 739038
         \<and> f_date (forecast ! 6) = 739044"
    by blast
  with h1 show ?thesis by (rule conjI)
qed

end
